theory Spec2Isabelle
  imports Complex_Main "HOL-Library.Sublist"
begin

section \<open>Canonical keypoint schema\<close>

text \<open>
  The module-level constants of \<^verbatim>\<open>pose_estimation.py\<close>: the 17 COCO joint names in
  their fixed order and the 18 skeleton edges as pairs of joint indices.
\<close>

definition COCO_KEYPOINTS :: "string list" where
  "COCO_KEYPOINTS =
     [''nose'', ''left_eye'', ''right_eye'', ''left_ear'', ''right_ear'',
      ''left_shoulder'', ''right_shoulder'', ''left_elbow'', ''right_elbow'',
      ''left_wrist'', ''right_wrist'', ''left_hip'', ''right_hip'',
      ''left_knee'', ''right_knee'', ''left_ankle'', ''right_ankle'']"

definition COCO_SKELETON :: "(nat \<times> nat) list" where
  "COCO_SKELETON =
     [(5, 7), (7, 9), (6, 8), (8, 10), (5, 6), (5, 11), (6, 12), (11, 12),
      (11, 13), (13, 15), (12, 14), (14, 16), (0, 1), (0, 2), (1, 3), (2, 4),
      (0, 5), (0, 6)]"

section \<open>Data model\<close>

text \<open>
  Python floats are idealised as reals: every comparison the code makes on them
  (\<^verbatim>\<open>conf > 0\<close>, \<^verbatim>\<open>iou > 0.3\<close>, \<^verbatim>\<open>score >= conf_threshold\<close>) is then exact.
  A keypoint is the triple \<^verbatim>\<open>[x, y, conf]\<close>; a pose is the list of its keypoints.
\<close>

type_synonym keypoint = "real \<times> real \<times> real"

type_synonym pose = "keypoint list"

definition kp_conf :: "keypoint \<Rightarrow> real" where
  "kp_conf k = snd (snd k)"

datatype shape_kind = Point | Line

text \<open>The dictionaries built by \<^verbatim>\<open>get_shapes_from_poses\<close>; \<^verbatim>\<open>flags\<close> is always empty.\<close>

record shape =
  label :: string
  points :: "(real \<times> real) list"
  group_id :: int
  shape_type :: shape_kind
  flags :: "(string \<times> bool) list"

text \<open>
  The exceptions that occur in the module. All of them are subclasses of Python's
  \<^verbatim>\<open>Exception\<close>, which is what the handlers of the module catch.
\<close>

datatype exn =
  ImportError | FileNotFoundError | AttributeError | IndexError
  | TypeError | ValueError | RuntimeError | ZeroDivisionError

text \<open>Python truthiness of an optional flag: \<^verbatim>\<open>None\<close> and \<^verbatim>\<open>False\<close> are falsy.\<close>

definition truthy :: "bool option \<Rightarrow> bool" where
  "truthy b = (case b of None \<Rightarrow> False | Some v \<Rightarrow> v)"

section \<open>Shape projection\<close>

definition point_shape :: "string \<Rightarrow> real \<Rightarrow> real \<Rightarrow> int \<Rightarrow> shape" where
  "point_shape kpt_name x y gid =
     \<lparr>label = kpt_name, points = [(x, y)], group_id = gid, shape_type = Point, flags = []\<rparr>"

definition limb_label :: "string \<Rightarrow> string \<Rightarrow> string" where
  "limb_label p1_name p2_name = ''limb_'' @ p1_name @ ''_'' @ p2_name"

definition line_shape :: "string \<Rightarrow> keypoint \<Rightarrow> keypoint \<Rightarrow> int \<Rightarrow> shape" where
  "line_shape lbl p1 p2 gid =
     \<lparr>label = lbl, points = [(fst p1, fst (snd p1)), (fst p2, fst (snd p2))],
      group_id = gid, shape_type = Line, flags = []\<rparr>"

text \<open>
  The inner loop \<^verbatim>\<open>for j, (x, y, conf) in enumerate(kpts)\<close>. Looking up
  \<^verbatim>\<open>COCO_KEYPOINTS[j]\<close> raises \<^verbatim>\<open>IndexError\<close> for a visible keypoint beyond the
  seventeenth.
\<close>

fun keypoint_shapes :: "int \<Rightarrow> nat \<Rightarrow> keypoint list \<Rightarrow> exn + shape list" where
  "keypoint_shapes gid j [] = Inr []"
| "keypoint_shapes gid j ((x, y, conf) # ks) =
     (if conf > 0 then
        (if j < length COCO_KEYPOINTS then
           (case keypoint_shapes gid (Suc j) ks of
              Inl e \<Rightarrow> Inl e
            | Inr ss \<Rightarrow> Inr (point_shape (COCO_KEYPOINTS ! j) x y gid # ss))
         else Inl IndexError)
      else keypoint_shapes gid (Suc j) ks)"

text \<open>
  The loop \<^verbatim>\<open>for p1_idx, p2_idx in COCO_SKELETON\<close>. Reading \<^verbatim>\<open>kpts[p1_idx]\<close> raises
  \<^verbatim>\<open>IndexError\<close> when the pose has too few keypoints.
\<close>

fun limb_shapes :: "int \<Rightarrow> keypoint list \<Rightarrow> (nat \<times> nat) list \<Rightarrow> exn + shape list" where
  "limb_shapes gid kpts [] = Inr []"
| "limb_shapes gid kpts ((p1_idx, p2_idx) # es) =
     (if p1_idx < length kpts \<and> p2_idx < length kpts
         \<and> p1_idx < length COCO_KEYPOINTS \<and> p2_idx < length COCO_KEYPOINTS then
        (if kp_conf (kpts ! p1_idx) > 0 \<and> kp_conf (kpts ! p2_idx) > 0 then
           (case limb_shapes gid kpts es of
              Inl e \<Rightarrow> Inl e
            | Inr ss \<Rightarrow>
                Inr (line_shape (limb_label (COCO_KEYPOINTS ! p1_idx) (COCO_KEYPOINTS ! p2_idx))
                       (kpts ! p1_idx) (kpts ! p2_idx) gid # ss))
         else limb_shapes gid kpts es)
      else Inl IndexError)"

text \<open>The shapes of one pose: its points, then its limbs when \<^verbatim>\<open>draw_skeleton\<close> is truthy.\<close>

definition pose_shapes :: "int \<Rightarrow> bool option \<Rightarrow> keypoint list \<Rightarrow> exn + shape list" where
  "pose_shapes gid draw_skeleton kpts =
     (case keypoint_shapes gid 0 kpts of
        Inl e \<Rightarrow> Inl e
      | Inr ps \<Rightarrow>
          (if truthy draw_skeleton then
             (case limb_shapes gid kpts COCO_SKELETON of
                Inl e \<Rightarrow> Inl e
              | Inr ls \<Rightarrow> Inr (ps @ ls))
           else Inr ps))"

text \<open>The outer loop \<^verbatim>\<open>for i, kpts in enumerate(keypoints)\<close> with \<^verbatim>\<open>group_id = start_group_id + i\<close>.\<close>

fun poses_shapes :: "int \<Rightarrow> bool option \<Rightarrow> nat \<Rightarrow> pose list \<Rightarrow> exn + shape list" where
  "poses_shapes start_group_id draw_skeleton i [] = Inr []"
| "poses_shapes start_group_id draw_skeleton i (kpts # rest) =
     (case pose_shapes (start_group_id + int i) draw_skeleton kpts of
        Inl e \<Rightarrow> Inl e
      | Inr ss \<Rightarrow>
          (case poses_shapes start_group_id draw_skeleton (Suc i) rest of
             Inl e \<Rightarrow> Inl e
           | Inr later \<Rightarrow> Inr (ss @ later)))"

text \<open>
  \<^verbatim>\<open>get_shapes_from_poses(keypoints, scores, start_group_id, draw_skeleton)\<close>. The
  per-pose \<^verbatim>\<open>score\<close> it reads from \<^verbatim>\<open>scores\<close> is stored in no shape, so \<^verbatim>\<open>scores\<close> does
  not influence the result.
\<close>

definition get_shapes_from_poses ::
  "pose list \<Rightarrow> real list \<Rightarrow> int \<Rightarrow> bool option \<Rightarrow> exn + shape list" where
  "get_shapes_from_poses keypoints scores start_group_id draw_skeleton =
     poses_shapes start_group_id draw_skeleton 0 keypoints"

section \<open>Configuration and estimator construction\<close>

text \<open>
  The dictionary returned by \<^verbatim>\<open>ConfigLoader().get_pose_estimation_config()\<close>. The
  loader is imported from another module, so the dictionary is a parameter of the
  model; a field is \<open>None\<close> when the key is missing, which is when \<^verbatim>\<open>.get(key, default)\<close>
  returns the default. The entries of \<^verbatim>\<open>advanced\<close> that the detection code reads for
  its result are the integers \<^verbatim>\<open>max_poses\<close> and \<^verbatim>\<open>min_keypoints\<close>.
\<close>

type_synonym params = "(string \<times> int) list"

record pose_config =
  cfg_model_name :: "string option"
  cfg_conf_threshold :: "real option"
  cfg_device :: "string option"
  cfg_keypoint_threshold :: "real option"
  cfg_advanced :: "params option"
  cfg_draw_skeleton :: "bool option"

definition dict_get :: "params \<Rightarrow> string \<Rightarrow> int \<Rightarrow> int" where
  "dict_get d k dflt = (case map_of d k of None \<Rightarrow> dflt | Some v \<Rightarrow> v)"

text \<open>
  Python's \<^verbatim>\<open>a or b\<close> on an optional argument: \<^verbatim>\<open>b\<close> when \<^verbatim>\<open>a\<close> is \<^verbatim>\<open>None\<close> or
  falsy (the number zero, the empty string, the empty dictionary), else \<^verbatim>\<open>a\<close>.
\<close>

definition or_real :: "real option \<Rightarrow> real \<Rightarrow> real" where
  "or_real a b = (case a of None \<Rightarrow> b | Some v \<Rightarrow> if v = 0 then b else v)"

definition or_list :: "'a list option \<Rightarrow> 'a list \<Rightarrow> 'a list" where
  "or_list a b = (case a of None \<Rightarrow> b | Some v \<Rightarrow> if v = [] then b else v)"

definition get_or :: "'a option \<Rightarrow> 'a \<Rightarrow> 'a" where
  "get_or a dflt = (case a of None \<Rightarrow> dflt | Some v \<Rightarrow> v)"

text \<open>One detection of the torchvision model: \<^verbatim>\<open>boxes[i]\<close>, \<^verbatim>\<open>scores[i]\<close>, \<^verbatim>\<open>keypoints[i]\<close>.\<close>

type_synonym box = "real \<times> real \<times> real \<times> real"

record detection =
  det_box :: box
  det_score :: real
  det_keypoints :: "keypoint list"

text \<open>The dictionary the model returns for one input image, as the list of its detections.\<close>

type_synonym prediction = "detection list"

text \<open>What the model is run on: the whole image, or the crop \<^verbatim>\<open>image[y1:y2, x1:x2]\<close>.\<close>

datatype region = Whole | Crop int int int int

record image =
  img_height :: int
  img_width :: int

text \<open>
  Everything outside the module that a call depends on: whether \<^verbatim>\<open>torch\<close> and the
  YOLOv7 package can be imported, the configuration, whether loading the weights of a
  model family raises, and what inference returns or raises on a given input. The image
  is fixed during a call, so inference is a function of the region it is run on.
\<close>

record world =
  HAS_TORCH :: bool
  config :: pose_config
  yolov7_importable :: bool
  cuda_available :: bool
  rtmpose_load :: "exn option"
  keypointrcnn_load :: "exn option"
  keypointrcnn_model :: "region \<Rightarrow> exn + prediction list"
  rtmpose_full :: "exn + (pose \<times> real) list"
  rtmpose_boxes :: "box list \<Rightarrow> exn + (pose \<times> real) list"

record estimator =
  model_name :: string
  conf_threshold :: real
  device :: string
  keypoint_threshold :: real
  advanced_params :: params
  draw_skeleton :: bool
  is_rtmpose :: bool
  is_keypointrcnn :: bool

definition rtmpose_configs :: "string list" where
  "rtmpose_configs = [''rtmpose_tiny'', ''rtmpose_s'', ''rtmpose_m'', ''rtmpose_l'']"

text \<open>
  \<^verbatim>\<open>_load_model\<close>, with the estimator it leaves behind. \<^verbatim>\<open>_load_rtmpose_model\<close> renames
  an unknown RTMPose model to \<^verbatim>\<open>rtmpose_s\<close>. \<^verbatim>\<open>_load_yolov7_pose_model\<close> reads
  \<^verbatim>\<open>self.params\<close>, an attribute that is assigned nowhere, inside a handler that turns every
  exception into \<^verbatim>\<open>ImportError\<close>: it always raises.
\<close>

definition load_model :: "world \<Rightarrow> estimator \<Rightarrow> exn + estimator" where
  "load_model w est =
     (if is_rtmpose est then
        (case rtmpose_load w of
           Some e \<Rightarrow> Inl e
         | None \<Rightarrow>
             Inr (if model_name est \<in> set rtmpose_configs then est
                  else est\<lparr>model_name := ''rtmpose_s''\<rparr>))
      else if is_keypointrcnn est then
        (case keypointrcnn_load w of Some e \<Rightarrow> Inl e | None \<Rightarrow> Inr est)
      else Inl ImportError)"

text \<open>\<^verbatim>\<open>PoseEstimator.__init__\<close>.\<close>

definition PoseEstimator_init ::
  "world \<Rightarrow> string option \<Rightarrow> string option \<Rightarrow> real option \<Rightarrow> real option
     \<Rightarrow> params option \<Rightarrow> bool option \<Rightarrow> exn + estimator" where
  "PoseEstimator_init w model_name_arg device_arg conf_threshold_arg keypoint_threshold_arg
       advanced_params_arg draw_skeleton_arg =
     (if \<not> HAS_TORCH w then Inl ImportError
      else
        let cfg = config w;
            name = or_list model_name_arg
                     (get_or (cfg_model_name cfg) ''keypointrcnn_resnet50_fpn'');
            conf = or_real conf_threshold_arg (get_or (cfg_conf_threshold cfg) (1/2));
            dev = or_list device_arg (get_or (cfg_device cfg) ''cpu'');
            kthr = or_real keypoint_threshold_arg (get_or (cfg_keypoint_threshold cfg) (1/5));
            adv = or_list advanced_params_arg (get_or (cfg_advanced cfg) []);
            skel = (case draw_skeleton_arg of
                      Some b \<Rightarrow> b
                    | None \<Rightarrow> get_or (cfg_draw_skeleton cfg) True);
            rtm = prefix ''rtmpose'' name;
            rcnn = (name = ''keypointrcnn_resnet50_fpn'');
            fallback = (\<not> rtm \<and> \<not> rcnn \<and> \<not> yolov7_importable w);
            est = \<lparr>model_name = (if fallback then ''keypointrcnn_resnet50_fpn'' else name),
                   conf_threshold = conf,
                   device = (if cuda_available w \<and> dev = ''cuda'' then ''cuda'' else ''cpu''),
                   keypoint_threshold = kthr,
                   advanced_params = adv,
                   draw_skeleton = skel,
                   is_rtmpose = rtm,
                   is_keypointrcnn = (rcnn \<or> fallback)\<rparr>
        in load_model w est)"

section \<open>Full-image detection\<close>

text \<open>
  The number of keypoints of a pose whose confidence reaches the keypoint threshold:
  \<^verbatim>\<open>sum(1 for _, _, conf in kpts if conf >= self.keypoint_threshold)\<close>.
\<close>

definition visible_keypoints :: "real \<Rightarrow> pose \<Rightarrow> int" where
  "visible_keypoints kthr kpts = int (length (filter (\<lambda>k. kp_conf k \<ge> kthr) kpts))"

text \<open>
  \<^verbatim>\<open>_detect_keypointrcnn\<close> turns the visibility that the model reports into a confidence:
  \<^verbatim>\<open>conf = vis / 2.0 if vis > 0 else 0.0\<close>.
\<close>

definition visibility_to_conf :: "real \<Rightarrow> real" where
  "visibility_to_conf vis = (if vis > 0 then vis / 2 else 0)"

definition convert_keypoints :: "keypoint list \<Rightarrow> pose" where
  "convert_keypoints kpts = map (\<lambda>(x, y, vis). (x, y, visibility_to_conf vis)) kpts"

text \<open>
  The loop of \<^verbatim>\<open>_detect_keypointrcnn\<close> over the detections that passed the score mask:
  a pose is appended when enough of its keypoints are visible, and the loop breaks when
  \<^verbatim>\<open>max_poses\<close> poses are collected.
\<close>

fun keypointrcnn_collect ::
  "real \<Rightarrow> int \<Rightarrow> int \<Rightarrow> detection list \<Rightarrow> pose list \<times> real list \<Rightarrow> pose list \<times> real list" where
  "keypointrcnn_collect kthr min_keypoints max_poses [] acc = acc"
| "keypointrcnn_collect kthr min_keypoints max_poses (d # ds) (keypoints_list, scores_list) =
     (let kpts_list = convert_keypoints (det_keypoints d) in
      if visible_keypoints kthr kpts_list \<ge> min_keypoints then
        (let keypoints_list' = keypoints_list @ [kpts_list];
             scores_list' = scores_list @ [det_score d]
         in if int (length keypoints_list') \<ge> max_poses then (keypoints_list', scores_list')
            else keypointrcnn_collect kthr min_keypoints max_poses ds
                   (keypoints_list', scores_list'))
      else keypointrcnn_collect kthr min_keypoints max_poses ds (keypoints_list, scores_list))"

definition detect_keypointrcnn :: "world \<Rightarrow> estimator \<Rightarrow> exn + (pose list \<times> real list)" where
  "detect_keypointrcnn w est =
     (case keypointrcnn_model w Whole of
        Inl e \<Rightarrow> Inl e
      | Inr predictions \<Rightarrow>
          (case predictions of
             [] \<Rightarrow> Inr ([], [])
           | pred # _ \<Rightarrow>
               Inr (keypointrcnn_collect (keypoint_threshold est)
                      (dict_get (advanced_params est) ''min_keypoints'' 5)
                      (dict_get (advanced_params est) ''max_poses'' 20)
                      (filter (\<lambda>d. det_score d \<ge> conf_threshold est) pred) ([], []))))"

text \<open>
  The loop of \<^verbatim>\<open>_detect_rtmpose\<close>: here the instance score is checked together with the
  number of visible keypoints.
\<close>

fun rtmpose_collect ::
  "real \<Rightarrow> real \<Rightarrow> int \<Rightarrow> int \<Rightarrow> (pose \<times> real) list \<Rightarrow> pose list \<times> real list
     \<Rightarrow> pose list \<times> real list" where
  "rtmpose_collect kthr cthr min_keypoints max_poses [] acc = acc"
| "rtmpose_collect kthr cthr min_keypoints max_poses ((kpts, score) # rest)
       (valid_poses, valid_scores) =
     (if visible_keypoints kthr kpts \<ge> min_keypoints \<and> score \<ge> cthr then
        (let valid_poses' = valid_poses @ [kpts];
             valid_scores' = valid_scores @ [score]
         in if int (length valid_poses') \<ge> max_poses then (valid_poses', valid_scores')
            else rtmpose_collect kthr cthr min_keypoints max_poses rest
                   (valid_poses', valid_scores'))
      else rtmpose_collect kthr cthr min_keypoints max_poses rest (valid_poses, valid_scores))"

text \<open>\<^verbatim>\<open>_detect_rtmpose\<close> catches every exception of the inference and returns two empty lists.\<close>

definition detect_rtmpose :: "world \<Rightarrow> estimator \<Rightarrow> pose list \<times> real list" where
  "detect_rtmpose w est =
     (case rtmpose_full w of
        Inl e \<Rightarrow> ([], [])
      | Inr results \<Rightarrow>
          rtmpose_collect (keypoint_threshold est) (conf_threshold est)
            (dict_get (advanced_params est) ''min_keypoints'' 5)
            (dict_get (advanced_params est) ''max_poses'' 20) results ([], []))"

text \<open>
  \<^verbatim>\<open>_detect_yolov7_pose\<close> reads \<^verbatim>\<open>self.imgsz\<close> before it runs the model. The loader assigns
  \<^verbatim>\<open>self.img_size\<close>, and nothing assigns \<^verbatim>\<open>self.imgsz\<close>: the read raises.
\<close>

definition detect_yolov7_pose :: "world \<Rightarrow> estimator \<Rightarrow> exn + (pose list \<times> real list)" where
  "detect_yolov7_pose w est = Inl AttributeError"

text \<open>\<^verbatim>\<open>PoseEstimator.detect_poses\<close>: the dispatch on the model name.\<close>

definition PoseEstimator_detect_poses ::
  "world \<Rightarrow> estimator \<Rightarrow> exn + (pose list \<times> real list)" where
  "PoseEstimator_detect_poses w est =
     (if prefix ''rtmpose'' (model_name est) then Inr (detect_rtmpose w est)
      else if model_name est = ''yolov7_w6_pose'' then detect_yolov7_pose w est
      else if model_name est = ''keypointrcnn_resnet50_fpn'' then detect_keypointrcnn w est
      else detect_keypointrcnn w est)"

section \<open>Box-guided detection\<close>

text \<open>Python's \<^verbatim>\<open>int(coord)\<close> on a float truncates towards zero.\<close>

definition py_int :: "real \<Rightarrow> int" where
  "py_int x = (if x \<ge> 0 then \<lfloor>x\<rfloor> else \<lceil>x\<rceil>)"

text \<open>The box with integer corners, each clamped into the image.\<close>

definition clamp_box :: "image \<Rightarrow> box \<Rightarrow> int \<times> int \<times> int \<times> int" where
  "clamp_box img b =
     (case b of (bx1, by1, bx2, by2) \<Rightarrow>
        (max 0 (min (py_int bx1) (img_width img - 1)),
         max 0 (min (py_int by1) (img_height img - 1)),
         max 0 (min (py_int bx2) (img_width img - 1)),
         max 0 (min (py_int by2) (img_height img - 1))))"

text \<open>\<^verbatim>\<open>if x2 - x1 < 10 or y2 - y1 < 10: continue\<close>\<close>

definition too_small :: "int \<times> int \<times> int \<times> int \<Rightarrow> bool" where
  "too_small c = (case c of (x1, y1, x2, y2) \<Rightarrow> x2 - x1 < 10 \<or> y2 - y1 < 10)"

text \<open>\<^verbatim>\<open>keypoints[keypoints[:, 2] < self.keypoint_threshold, 2] = 0\<close>\<close>

definition zero_low :: "real \<Rightarrow> keypoint list \<Rightarrow> pose" where
  "zero_low kthr kpts = map (\<lambda>(x, y, c). (x, y, if c < kthr then 0 else c)) kpts"

text \<open>Moving the keypoints of a crop back into the image: \<^verbatim>\<open>adjusted_keypoints[:, 0] += x1\<close>.\<close>

definition shift_keypoints :: "int \<Rightarrow> int \<Rightarrow> keypoint list \<Rightarrow> keypoint list" where
  "shift_keypoints x1 y1 kpts = map (\<lambda>(x, y, c). (x + real_of_int x1, y + real_of_int y1, c)) kpts"

text \<open>
  The Intersection-over-Union of the clamped box with a predicted box, computed when the
  two overlap (\<^verbatim>\<open>ix2 > ix1 and iy2 > iy1\<close>).
\<close>

definition overlaps :: "int \<times> int \<times> int \<times> int \<Rightarrow> box \<Rightarrow> bool" where
  "overlaps c p =
     (case c of (x1, y1, x2, y2) \<Rightarrow> case p of (px1, py1, px2, py2) \<Rightarrow>
        min (real_of_int x2) px2 > max (real_of_int x1) px1
        \<and> min (real_of_int y2) py2 > max (real_of_int y1) py1)"

definition iou :: "int \<times> int \<times> int \<times> int \<Rightarrow> box \<Rightarrow> real" where
  "iou c p =
     (case c of (x1, y1, x2, y2) \<Rightarrow> case p of (px1, py1, px2, py2) \<Rightarrow>
        let ix1 = max (real_of_int x1) px1;
            iy1 = max (real_of_int y1) py1;
            ix2 = min (real_of_int x2) px2;
            iy2 = min (real_of_int y2) py2;
            intersection = (ix2 - ix1) * (iy2 - iy1);
            box_area = real_of_int ((x2 - x1) * (y2 - y1));
            pred_area = (px2 - px1) * (py2 - py1);
            union = box_area + pred_area - intersection
        in intersection / union)"

text \<open>
  The search \<^verbatim>\<open>for i, pred_box in enumerate(pred_boxes)\<close> for the predicted box of
  greatest IoU, started with \<^verbatim>\<open>best_iou = 0\<close> and \<^verbatim>\<open>best_idx = -1\<close>.
\<close>

fun best_match ::
  "int \<times> int \<times> int \<times> int \<Rightarrow> detection list \<Rightarrow> int \<Rightarrow> real \<times> int \<Rightarrow> real \<times> int" where
  "best_match c [] i best = best"
| "best_match c (d # ds) i (best_iou, best_idx) =
     (if overlaps c (det_box d) then
        (if iou c (det_box d) > best_iou
         then best_match c ds (i + 1) (iou c (det_box d), i)
         else best_match c ds (i + 1) (best_iou, best_idx))
      else best_match c ds (i + 1) (best_iou, best_idx))"

text \<open>
  The state of the loop over the boxes: the two result lists, and the inputs the model
  has been run on so far, in order.
\<close>

record det_state =
  keypoints_list :: "pose list"
  scores_list :: "real list"
  model_runs :: "region list"

definition append_pose :: "pose \<Rightarrow> real \<Rightarrow> det_state \<Rightarrow> det_state" where
  "append_pose kpts score st =
     st\<lparr>keypoints_list := keypoints_list st @ [kpts], scores_list := scores_list st @ [score]\<rparr>"

definition log_run :: "region \<Rightarrow> det_state \<Rightarrow> det_state" where
  "log_run r st = st\<lparr>model_runs := model_runs st @ [r]\<rparr>"

text \<open>
  The fallback of \<^verbatim>\<open>_detect_keypointrcnn_from_boxes\<close> on the prediction for the whole
  image: the detection of greatest IoU with the box is appended when that IoU exceeds 0.3.
\<close>

definition match_full :: "real \<Rightarrow> int \<times> int \<times> int \<times> int \<Rightarrow> prediction list \<Rightarrow> det_state \<Rightarrow> det_state" where
  "match_full kthr c full_predictions st =
     (case full_predictions of
        [] \<Rightarrow> st
      | pred # _ \<Rightarrow>
          (if pred = [] then st
           else
             (case best_match c pred 0 (0, -1) of (best_iou, best_idx) \<Rightarrow>
                if best_idx \<ge> 0 \<and> best_iou > 3 / 10 then
                  append_pose (zero_low kthr (det_keypoints (pred ! nat best_idx)))
                    (det_score (pred ! nat best_idx)) st
                else st)))"

text \<open>
  One iteration of \<^verbatim>\<open>for box in boxes\<close>. A box that is too small is skipped. The model is
  run on the crop; its first detection is taken when there is one, and appended when its
  score reaches the threshold. When the crop gives no detection and no pose has been
  collected so far (\<^verbatim>\<open>elif len(keypoints_list) == 0\<close>), the model is run on the whole
  image.
\<close>

definition box_step :: "world \<Rightarrow> estimator \<Rightarrow> image \<Rightarrow> det_state \<Rightarrow> box \<Rightarrow> exn + det_state" where
  "box_step w est img st b =
     (case clamp_box img b of (x1, y1, x2, y2) \<Rightarrow>
        if too_small (x1, y1, x2, y2) then Inr st
        else
          (case keypointrcnn_model w (Crop x1 y1 x2 y2) of
             Inl e \<Rightarrow> Inl e
           | Inr predictions \<Rightarrow>
               (let st1 = log_run (Crop x1 y1 x2 y2) st in
                case predictions of
                  (d # _) # _ \<Rightarrow>
                    (if det_score d \<ge> conf_threshold est then
                       Inr (append_pose
                              (zero_low (keypoint_threshold est)
                                 (shift_keypoints x1 y1 (det_keypoints d)))
                              (det_score d) st1)
                     else Inr st1)
                | _ \<Rightarrow>
                    (if keypoints_list st1 = [] then
                       (case keypointrcnn_model w Whole of
                          Inl e \<Rightarrow> Inl e
                        | Inr full_predictions \<Rightarrow>
                            Inr (match_full (keypoint_threshold est) (x1, y1, x2, y2)
                                   full_predictions (log_run Whole st1)))
                     else Inr st1))))"

fun boxes_loop :: "world \<Rightarrow> estimator \<Rightarrow> image \<Rightarrow> det_state \<Rightarrow> box list \<Rightarrow> exn + det_state" where
  "boxes_loop w est img st [] = Inr st"
| "boxes_loop w est img st (b # bs) =
     (case box_step w est img st b of
        Inl e \<Rightarrow> Inl e
      | Inr st' \<Rightarrow> boxes_loop w est img st' bs)"

definition init_state :: det_state where
  "init_state = \<lparr>keypoints_list = [], scores_list = [], model_runs = []\<rparr>"

text \<open>
  \<^verbatim>\<open>_detect_keypointrcnn_from_boxes\<close>: the loop inside \<^verbatim>\<open>try\<close>; the handler returns two
  empty lists.
\<close>

definition detect_keypointrcnn_from_boxes ::
  "world \<Rightarrow> estimator \<Rightarrow> image \<Rightarrow> box list \<Rightarrow> pose list \<times> real list" where
  "detect_keypointrcnn_from_boxes w est img boxes =
     (case boxes_loop w est img init_state boxes of
        Inl e \<Rightarrow> ([], [])
      | Inr st \<Rightarrow> (keypoints_list st, scores_list st))"

text \<open>
  \<^verbatim>\<open>_detect_rtmpose_from_boxes\<close> has no handler. Keypoints below the threshold get
  confidence 0.
\<close>

definition detect_rtmpose_from_boxes ::
  "world \<Rightarrow> estimator \<Rightarrow> image \<Rightarrow> box list \<Rightarrow> exn + (pose list \<times> real list)" where
  "detect_rtmpose_from_boxes w est img boxes =
     (case rtmpose_boxes w boxes of
        Inl e \<Rightarrow> Inl e
      | Inr results \<Rightarrow>
          Inr (map (\<lambda>(kpts, score). zero_low (keypoint_threshold est) kpts) results,
               map snd results))"

text \<open>
  \<^verbatim>\<open>_detect_yolov7_pose_from_boxes\<close> runs inside a handler that returns two empty lists:
  a box that is not skipped leads to the read of \<^verbatim>\<open>self.imgsz\<close>, which raises, and
  when every box is skipped the two lists are still empty.
\<close>

definition detect_yolov7_pose_from_boxes ::
  "world \<Rightarrow> estimator \<Rightarrow> image \<Rightarrow> box list \<Rightarrow> pose list \<times> real list" where
  "detect_yolov7_pose_from_boxes w est img boxes = ([], [])"

text \<open>\<^verbatim>\<open>PoseEstimator.detect_poses_from_boxes\<close>\<close>

definition PoseEstimator_detect_poses_from_boxes ::
  "world \<Rightarrow> estimator \<Rightarrow> image \<Rightarrow> box list \<Rightarrow> exn + (pose list \<times> real list)" where
  "PoseEstimator_detect_poses_from_boxes w est img boxes =
     (if is_rtmpose est then detect_rtmpose_from_boxes w est img boxes
      else if is_keypointrcnn est then Inr (detect_keypointrcnn_from_boxes w est img boxes)
      else Inr (detect_yolov7_pose_from_boxes w est img boxes))"

section \<open>The module-level entry points\<close>

text \<open>
  A \<^verbatim>\<open>try\<close> block whose handler is \<^verbatim>\<open>except Exception\<close>: the handler's value replaces
  every exception of the body.
\<close>

definition try_except :: "exn + 'a \<Rightarrow> (exn \<Rightarrow> exn + 'a) \<Rightarrow> exn + 'a" where
  "try_except body handler = (case body of Inl e \<Rightarrow> handler e | Inr v \<Rightarrow> Inr v)"

text \<open>The body of \<^verbatim>\<open>detect_poses\<close>: construct the estimator, detect, project.\<close>

definition detect_poses_body ::
  "world \<Rightarrow> image \<Rightarrow> string option \<Rightarrow> string option \<Rightarrow> real option \<Rightarrow> real option
     \<Rightarrow> params option \<Rightarrow> int \<Rightarrow> bool option \<Rightarrow> exn + shape list" where
  "detect_poses_body w img model_name_arg device_arg conf_threshold_arg
       keypoint_threshold_arg advanced_params_arg start_group_id draw_skeleton_arg =
     (case PoseEstimator_init w model_name_arg device_arg conf_threshold_arg
             keypoint_threshold_arg advanced_params_arg draw_skeleton_arg of
        Inl e \<Rightarrow> Inl e
      | Inr estimator \<Rightarrow>
          (case PoseEstimator_detect_poses w estimator of
             Inl e \<Rightarrow> Inl e
           | Inr (keypoints, scores) \<Rightarrow>
               get_shapes_from_poses keypoints scores start_group_id draw_skeleton_arg))"

definition detect_poses ::
  "world \<Rightarrow> image \<Rightarrow> string option \<Rightarrow> string option \<Rightarrow> real option \<Rightarrow> real option
     \<Rightarrow> params option \<Rightarrow> int \<Rightarrow> bool option \<Rightarrow> exn + shape list" where
  "detect_poses w img model_name_arg device_arg conf_threshold_arg
       keypoint_threshold_arg advanced_params_arg start_group_id draw_skeleton_arg =
     try_except
       (detect_poses_body w img model_name_arg device_arg conf_threshold_arg
          keypoint_threshold_arg advanced_params_arg start_group_id draw_skeleton_arg)
       (\<lambda>e. Inr [])"

text \<open>
  \<^verbatim>\<open>if existing_person_boxes and len(existing_person_boxes) > 0 and
  (use_detection_results is None or use_detection_results)\<close>
\<close>

definition use_boxes :: "box list option \<Rightarrow> bool option \<Rightarrow> bool" where
  "use_boxes existing_person_boxes use_detection_results =
     (case existing_person_boxes of
        None \<Rightarrow> False
      | Some boxes \<Rightarrow>
          boxes \<noteq> [] \<and> (use_detection_results = None \<or> use_detection_results = Some True))"

text \<open>
  The group id that \<^verbatim>\<open>estimate_poses\<close> hands to the projection: the first of the box
  identifiers when there is one and it is not \<^verbatim>\<open>None\<close>, otherwise \<^verbatim>\<open>start_group_id\<close>.
\<close>

definition first_group_id :: "int option list option \<Rightarrow> int \<Rightarrow> int" where
  "first_group_id existing_person_boxes_ids start_group_id =
     (case existing_person_boxes_ids of
        Some (Some g # _) \<Rightarrow> g
      | _ \<Rightarrow> start_group_id)"

text \<open>
  The body of \<^verbatim>\<open>estimate_poses\<close>: box-guided detection when boxes are given and their
  use is not switched off, full-image detection when that produced no pose.
\<close>

definition estimate_poses_body ::
  "world \<Rightarrow> image \<Rightarrow> string option \<Rightarrow> real option \<Rightarrow> string option \<Rightarrow> box list option
     \<Rightarrow> int option list option \<Rightarrow> bool option \<Rightarrow> real option \<Rightarrow> params option \<Rightarrow> int
     \<Rightarrow> bool option \<Rightarrow> exn + shape list" where
  "estimate_poses_body w img model_name_arg conf_threshold_arg device_arg existing_person_boxes
       existing_person_boxes_ids use_detection_results keypoint_threshold_arg
       advanced_params_arg start_group_id draw_skeleton_arg =
     (case PoseEstimator_init w model_name_arg device_arg conf_threshold_arg
             keypoint_threshold_arg advanced_params_arg draw_skeleton_arg of
        Inl e \<Rightarrow> Inl e
      | Inr estimator \<Rightarrow>
          (case (if use_boxes existing_person_boxes use_detection_results
                 then PoseEstimator_detect_poses_from_boxes w estimator img
                        (get_or existing_person_boxes [])
                 else Inr ([], [])) of
             Inl e \<Rightarrow> Inl e
           | Inr (keypoints, scores) \<Rightarrow>
               (case (if keypoints = [] then PoseEstimator_detect_poses w estimator
                      else Inr (keypoints, scores)) of
                  Inl e \<Rightarrow> Inl e
                | Inr (keypoints', scores') \<Rightarrow>
                    get_shapes_from_poses keypoints' scores'
                      (first_group_id existing_person_boxes_ids start_group_id)
                      draw_skeleton_arg)))"

definition estimate_poses ::
  "world \<Rightarrow> image \<Rightarrow> string option \<Rightarrow> real option \<Rightarrow> string option \<Rightarrow> box list option
     \<Rightarrow> int option list option \<Rightarrow> bool option \<Rightarrow> real option \<Rightarrow> params option \<Rightarrow> int
     \<Rightarrow> bool option \<Rightarrow> exn + shape list" where
  "estimate_poses w img model_name_arg conf_threshold_arg device_arg existing_person_boxes
       existing_person_boxes_ids use_detection_results keypoint_threshold_arg
       advanced_params_arg start_group_id draw_skeleton_arg =
     try_except
       (estimate_poses_body w img model_name_arg conf_threshold_arg device_arg
          existing_person_boxes existing_person_boxes_ids use_detection_results
          keypoint_threshold_arg advanced_params_arg start_group_id draw_skeleton_arg)
       (\<lambda>e. Inr [])"

section \<open>Counting the runs of the model\<close>

text \<open>
  Notions for counting the runs of the model on the whole image during the loop over the
  boxes: the number of such runs logged in a state; a box that is not skipped and in
  whose crop the model finds nothing; and a box that, met while no pose has been
  collected, leaves a pose behind.
\<close>

definition whole_runs :: "det_state \<Rightarrow> nat" where
  "whole_runs st = length (filter (\<lambda>r. r = Whole) (model_runs st))"

definition crop_empty :: "world \<Rightarrow> image \<Rightarrow> box \<Rightarrow> bool" where
  "crop_empty w img b =
     (case clamp_box img b of (x1, y1, x2, y2) \<Rightarrow>
        \<not> too_small (x1, y1, x2, y2)
        \<and> (case keypointrcnn_model w (Crop x1 y1 x2 y2) of
             Inl e \<Rightarrow> False
           | Inr predictions \<Rightarrow> (case predictions of (d # ds) # ps \<Rightarrow> False | _ \<Rightarrow> True)))"

definition collects :: "world \<Rightarrow> estimator \<Rightarrow> image \<Rightarrow> box \<Rightarrow> bool" where
  "collects w est img b =
     (case box_step w est img init_state b of
        Inl e \<Rightarrow> False
      | Inr st \<Rightarrow> keypoints_list st \<noteq> [])"

section \<open>Letterbox geometry\<close>

text \<open>
  Python's \<^verbatim>\<open>round\<close> of a float to an integer rounds a tie to the even neighbour.
\<close>

definition py_round :: "real \<Rightarrow> int" where
  "py_round x =
     (let f = \<lfloor>x\<rfloor>; d = x - real_of_int f
      in if d < 1 / 2 then f
         else if d > 1 / 2 then f + 1
         else if even f then f else f + 1)"

text \<open>
  What \<^verbatim>\<open>_letterbox\<close> computes from the shape \<^verbatim>\<open>(height, width)\<close> of the image and
  \<^verbatim>\<open>new_shape\<close>: the scale \<^verbatim>\<open>r\<close>, the size \<^verbatim>\<open>new_unpad\<close> (width, height) the image is
  resized to, the halved paddings \<^verbatim>\<open>dw\<close> and \<^verbatim>\<open>dh\<close> that it returns, and the four border
  widths it hands to \<^verbatim>\<open>cv2.copyMakeBorder\<close>.
\<close>

record letterbox_geometry =
  lb_r :: real
  new_unpad :: "int \<times> int"
  lb_dw :: real
  lb_dh :: real
  lb_top :: int
  lb_bottom :: int
  lb_left :: int
  lb_right :: int

text \<open>
  \<^verbatim>\<open>_letterbox(img, new_shape, stride)\<close>, on the shape of the image. The parameter
  \<^verbatim>\<open>stride\<close> is not used by the function. The divisions raise on an image without rows
  or columns.
\<close>

definition letterbox :: "int \<times> int \<Rightarrow> int \<times> int \<Rightarrow> int \<Rightarrow> exn + letterbox_geometry" where
  "letterbox shape new_shape stride =
     (if fst shape = 0 \<or> snd shape = 0 then Inl ZeroDivisionError
      else
        let r = min (real_of_int (fst new_shape) / real_of_int (fst shape))
                    (real_of_int (snd new_shape) / real_of_int (snd shape));
            new_unpad_w = py_round (real_of_int (snd shape) * r);
            new_unpad_h = py_round (real_of_int (fst shape) * r);
            dw = real_of_int (snd new_shape - new_unpad_w) / 2;
            dh = real_of_int (fst new_shape - new_unpad_h) / 2
        in Inr \<lparr>lb_r = r, new_unpad = (new_unpad_w, new_unpad_h), lb_dw = dw, lb_dh = dh,
                lb_top = py_round (dh - 1 / 10), lb_bottom = py_round (dh + 1 / 10),
                lb_left = py_round (dw - 1 / 10), lb_right = py_round (dw + 1 / 10)\<rparr>)"

text \<open>
  Where a point of the image lands in the letterboxed image: \<^verbatim>\<open>cv2.resize(img, new_unpad)\<close>
  stretches the width to \<^verbatim>\<open>new_unpad[0]\<close> and the height to \<^verbatim>\<open>new_unpad[1]\<close>, and
  \<^verbatim>\<open>cv2.copyMakeBorder(img, top, bottom, left, right)\<close> puts \<^verbatim>\<open>left\<close> columns and \<^verbatim>\<open>top\<close>
  rows before it.
\<close>

definition letterbox_forward ::
  "int \<times> int \<Rightarrow> int \<times> int \<Rightarrow> int \<Rightarrow> real \<times> real \<Rightarrow> exn + real \<times> real" where
  "letterbox_forward shape new_shape stride p =
     (case letterbox shape new_shape stride of
        Inl e \<Rightarrow> Inl e
      | Inr g \<Rightarrow>
          Inr (fst p * real_of_int (fst (new_unpad g)) / real_of_int (snd shape)
                 + real_of_int (lb_left g),
               snd p * real_of_int (snd (new_unpad g)) / real_of_int (fst shape)
                 + real_of_int (lb_top g)))"

text \<open>
  The mapping of a keypoint back to the image in \<^verbatim>\<open>_detect_yolov7_pose\<close>, from the side
  \<^verbatim>\<open>imgsz\<close> of the letterboxed square and the shape of the image.
\<close>

definition unletterbox :: "int \<Rightarrow> int \<times> int \<Rightarrow> real \<times> real \<Rightarrow> real \<times> real" where
  "unletterbox imgsz orig_shape p =
     (let image_width = real_of_int (snd orig_shape);
          image_height = real_of_int (fst orig_shape);
          r = min (real_of_int imgsz / image_width) (real_of_int imgsz / image_height);
          pad_w = (real_of_int imgsz - image_width * r) / 2;
          pad_h = (real_of_int imgsz - image_height * r) / 2
      in ((fst p - pad_w) / r, (snd p - pad_h) / r))"

text \<open>
  The same in \<^verbatim>\<open>_detect_yolov7_pose_from_boxes\<close>, for the crop that starts at
  \<^verbatim>\<open>(x1, y1)\<close>: the origin of the crop is added.
\<close>

definition unletterbox_crop ::
  "int \<Rightarrow> int \<times> int \<Rightarrow> int \<times> int \<Rightarrow> real \<times> real \<Rightarrow> real \<times> real" where
  "unletterbox_crop imgsz crop_shape origin p =
     (let crop_width = real_of_int (snd crop_shape);
          crop_height = real_of_int (fst crop_shape);
          r = min (real_of_int imgsz / crop_width) (real_of_int imgsz / crop_height);
          pad_w = (real_of_int imgsz - crop_width * r) / 2;
          pad_h = (real_of_int imgsz - crop_height * r) / 2
      in ((fst p - pad_w) / r + real_of_int (fst origin),
          (snd p - pad_h) / r + real_of_int (snd origin)))"

text \<open>
  Where a point of the image lands in the letterboxed crop: its place in the crop
  \<^verbatim>\<open>image[y1:y2, x1:x2]\<close> is the point less the origin of the crop.
\<close>

definition letterbox_forward_crop ::
  "int \<times> int \<Rightarrow> int \<times> int \<Rightarrow> int \<times> int \<Rightarrow> int \<Rightarrow> real \<times> real \<Rightarrow> exn + real \<times> real" where
  "letterbox_forward_crop origin crop_shape new_shape stride p =
     letterbox_forward crop_shape new_shape stride
       (fst p - real_of_int (fst origin), snd p - real_of_int (snd origin))"

section \<open>Example inputs\<close>

text \<open>
  A 640 by 480 image, an empty configuration (every default applies), and a person
  whose 17 keypoints the model reports as fully visible.
\<close>

definition example_image :: image where
  "example_image = \<lparr>img_height = 480, img_width = 640\<rparr>"

definition empty_config :: pose_config where
  "empty_config =
     \<lparr>cfg_model_name = None, cfg_conf_threshold = None, cfg_device = None,
      cfg_keypoint_threshold = None, cfg_advanced = None, cfg_draw_skeleton = None\<rparr>"

definition person_keypoints :: "real \<Rightarrow> keypoint list" where
  "person_keypoints vis =
     [(200, 60, vis), (205, 55, vis), (195, 55, vis), (210, 58, vis), (190, 58, vis),
      (225, 100, vis), (175, 100, vis), (235, 150, vis), (165, 150, vis),
      (240, 200, vis), (160, 200, vis), (215, 210, vis), (185, 210, vis),
      (218, 290, vis), (182, 290, vis), (220, 370, vis), (180, 370, vis)]"

definition person :: "real \<Rightarrow> real \<Rightarrow> detection" where
  "person score vis =
     \<lparr>det_box = (150, 40, 250, 380), det_score = score, det_keypoints = person_keypoints vis\<rparr>"

text \<open>A world in which the model finds the same person on whatever it is run.\<close>

definition one_person_world :: world where
  "one_person_world =
     \<lparr>HAS_TORCH = True, config = empty_config, yolov7_importable = False,
      cuda_available = False, rtmpose_load = None, keypointrcnn_load = None,
      keypointrcnn_model = (\<lambda>r. Inr [[person (19 / 20) 2]]),
      rtmpose_full = Inr [], rtmpose_boxes = (\<lambda>bs. Inr [])\<rparr>"

text \<open>A world without \<^verbatim>\<open>torch\<close>.\<close>

definition no_torch_world :: world where
  "no_torch_world = one_person_world\<lparr>HAS_TORCH := False\<rparr>"

text \<open>
  A person of whom the model sees three keypoints well (0.9) and the other fourteen
  hardly (0.1), and a world in which the model finds that person wherever it is run.
\<close>

definition half_hidden_keypoints :: "keypoint list" where
  "half_hidden_keypoints =
     [(200, 60, 9 / 10), (205, 55, 9 / 10), (195, 55, 9 / 10), (210, 58, 1 / 10),
      (190, 58, 1 / 10), (225, 100, 1 / 10), (175, 100, 1 / 10), (235, 150, 1 / 10),
      (165, 150, 1 / 10), (240, 200, 1 / 10), (160, 200, 1 / 10), (215, 210, 1 / 10),
      (185, 210, 1 / 10), (218, 290, 1 / 10), (182, 290, 1 / 10), (220, 370, 1 / 10),
      (180, 370, 1 / 10)]"

definition half_hidden_person :: detection where
  "half_hidden_person =
     \<lparr>det_box = (150, 40, 250, 380), det_score = 9 / 10, det_keypoints = half_hidden_keypoints\<rparr>"

definition half_hidden_world :: world where
  "half_hidden_world = one_person_world\<lparr>keypointrcnn_model := (\<lambda>r. Inr [[half_hidden_person]])\<rparr>"


text \<open>
  A pose whose nose has confidence 0 and whose left eye has confidence 0.01; the other
  keypoints have confidence 0.9.
\<close>

definition faint_pose :: pose where
  "faint_pose =
     [(200, 60, 0), (205, 55, 1 / 100), (195, 55, 9 / 10), (210, 58, 9 / 10),
      (190, 58, 9 / 10), (225, 100, 9 / 10), (175, 100, 9 / 10), (235, 150, 9 / 10),
      (165, 150, 9 / 10), (240, 200, 9 / 10), (160, 200, 9 / 10), (215, 210, 9 / 10),
      (185, 210, 9 / 10), (218, 290, 9 / 10), (182, 290, 9 / 10), (220, 370, 9 / 10),
      (180, 370, 9 / 10)]"

text \<open>
  The estimator that the constructor builds from an empty configuration, and a world in
  which the model finds nothing in any crop and, on the whole image, one person with a
  given bounding box.
\<close>

definition default_estimator :: estimator where
  "default_estimator =
     \<lparr>model_name = ''keypointrcnn_resnet50_fpn'', conf_threshold = 1 / 2, device = ''cpu'',
      keypoint_threshold = 1 / 5, advanced_params = [], draw_skeleton = True,
      is_rtmpose = False, is_keypointrcnn = True\<rparr>"

definition fallback_world :: "box \<Rightarrow> world" where
  "fallback_world pred_box =
     one_person_world
       \<lparr>keypointrcnn_model :=
          (\<lambda>r. case r of
                  Whole \<Rightarrow> Inr [[(person (19 / 20) 2)\<lparr>det_box := pred_box\<rparr>]]
                | Crop x1 y1 x2 y2 \<Rightarrow> Inr [[]])\<rparr>"

text \<open>
  A world in which the model finds the person in the crops that start at x = 100 and
  nothing in the other crops; on the whole image it finds the person.
\<close>

definition first_crop_world :: world where
  "first_crop_world =
     one_person_world
       \<lparr>keypointrcnn_model :=
          (\<lambda>r. case r of
                  Whole \<Rightarrow> Inr [[person (19 / 20) 2]]
                | Crop x1 y1 x2 y2 \<Rightarrow>
                    if x1 = 100 then Inr [[person (19 / 20) 2]] else Inr [[]])\<rparr>"


text \<open>A world in which the model finds a person all of whose keypoints are occluded (visibility 1).\<close>

definition occluded_world :: world where
  "occluded_world = one_person_world\<lparr>keypointrcnn_model := (\<lambda>r. Inr [[person (19 / 20) 1]])\<rparr>"

section \<open>Shapes without a skeleton\<close>

lemma keypoint_shapes_points:
  "keypoint_shapes gid j ks = Inr ss \<Longrightarrow> \<forall>s \<in> set ss. shape_type s = Point"
  by (induction gid j ks arbitrary: ss rule: keypoint_shapes.induct)
     (auto simp: point_shape_def split: if_splits sum.splits)

lemma pose_shapes_None_points:
  "pose_shapes gid None kpts = Inr ss \<Longrightarrow> \<forall>s \<in> set ss. shape_type s = Point"
  by (auto simp: pose_shapes_def truthy_def split: sum.splits dest: keypoint_shapes_points)

lemma poses_shapes_None_points:
  "poses_shapes start None i ps = Inr ss \<Longrightarrow> \<forall>s \<in> set ss. shape_type s = Point"
proof (induction ps arbitrary: i ss)
  case Nil
  then show ?case by simp
next
  case (Cons kpts rest)
  from Cons.prems obtain a b where
    a: "pose_shapes (start + int i) None kpts = Inr a" and
    b: "poses_shapes start None (Suc i) rest = Inr b" and ss: "ss = a @ b"
    by (auto split: sum.splits)
  from pose_shapes_None_points [OF a] Cons.IH [OF b] ss show ?case by auto
qed

lemma get_shapes_None_points:
  "get_shapes_from_poses kps scs start None = Inr ss \<Longrightarrow> \<forall>s \<in> set ss. shape_type s = Point"
  unfolding get_shapes_from_poses_def by (rule poses_shapes_None_points)

text \<open>
  C10: when the \<^verbatim>\<open>draw_skeleton\<close> argument of \<^verbatim>\<open>detect_poses\<close> or of \<^verbatim>\<open>estimate_poses\<close> is
  omitted (\<^verbatim>\<open>None\<close>), the returned list holds no line shape, whatever the configuration
  says: the raw argument reaches the projection, where \<^verbatim>\<open>None\<close> is falsy.
\<close>

theorem omitted_draw_skeleton_gives_no_lines:
  "(detect_poses w img mn dev ct kt ap sg None = Inr shapes
      \<longrightarrow> (\<forall>s \<in> set shapes. shape_type s \<noteq> Line))
   \<and> (estimate_poses w img mn ct dev bs ids ud kt ap sg None = Inr shapes'
      \<longrightarrow> (\<forall>s \<in> set shapes'. shape_type s \<noteq> Line))"
proof (intro conjI impI)
  assume "detect_poses w img mn dev ct kt ap sg None = Inr shapes"
  then have "\<forall>s \<in> set shapes. shape_type s = Point"
    by (auto simp: detect_poses_def try_except_def detect_poses_body_def
        split: sum.splits prod.splits dest: get_shapes_None_points)
  then show "\<forall>s \<in> set shapes. shape_type s \<noteq> Line" by simp
next
  assume "estimate_poses w img mn ct dev bs ids ud kt ap sg None = Inr shapes'"
  then have "\<forall>s \<in> set shapes'. shape_type s = Point"
    by (auto simp: estimate_poses_def try_except_def estimate_poses_body_def
        split: sum.splits prod.splits dest: get_shapes_None_points)
  then show "\<forall>s \<in> set shapes'. shape_type s \<noteq> Line" by simp
qed

text \<open>
  On the example the configuration is empty, so the estimator's own \<^verbatim>\<open>draw_skeleton\<close> is
  true; the 17 shapes returned are points all the same.
\<close>

theorem omitted_draw_skeleton_gives_no_lines_witness:
  "draw_skeleton (projr (PoseEstimator_init one_person_world None None None None None None))
   \<and> length (projr (detect_poses one_person_world example_image None None None None None 0 None)) = 17
   \<and> Line \<notin> shape_type ` set (projr (detect_poses one_person_world example_image None None None
                                       None None 0 None))
   \<and> length (projr (estimate_poses one_person_world example_image None None None
                      (Some [(100, 50, 300, 400)]) (Some [Some 7]) None None None 0 None)) = 17
   \<and> Line \<notin> shape_type ` set (projr (estimate_poses one_person_world example_image None None None
                      (Some [(100, 50, 300, 400)]) (Some [Some 7]) None None None 0 None))"
proof -
  have d: "isl (detect_poses one_person_world example_image None None None None None 0 None) = False"
    by code_simp
  have e: "isl (estimate_poses one_person_world example_image None None None
                  (Some [(100, 50, 300, 400)]) (Some [Some 7]) None None None 0 None) = False"
    by code_simp
  have l1: "draw_skeleton (projr (PoseEstimator_init one_person_world None None None None None None))"
    by code_simp
  have l2: "length (projr (detect_poses one_person_world example_image None None None None None 0 None)) = 17"
    by code_simp
  have l3: "length (projr (estimate_poses one_person_world example_image None None None
                      (Some [(100, 50, 300, 400)]) (Some [Some 7]) None None None 0 None)) = 17"
    by code_simp
  from d e l1 l2 l3
    omitted_draw_skeleton_gives_no_lines
      [where w = one_person_world and img = example_image and mn = None and dev = None
         and ct = None and kt = None and ap = None and sg = 0
         and bs = "Some [(100, 50, 300, 400)]" and ids = "Some [Some 7]" and ud = None
         and shapes = "projr (detect_poses one_person_world example_image None None None None
                               None 0 None)"
         and shapes' = "projr (estimate_poses one_person_world example_image None None None
                      (Some [(100, 50, 300, 400)]) (Some [Some 7]) None None None 0 None)"]
  show ?thesis by (auto simp: image_iff)
qed

section \<open>Exceptions at the entry points\<close>

text \<open>
  C2: whatever fails behind \<^verbatim>\<open>detect_poses\<close> and \<^verbatim>\<open>estimate_poses\<close> (the runtime missing,
  the weights failing to load, inference raising), each of the two returns a list of
  shapes, and the list is empty when the body raised.
\<close>

theorem entry_points_never_raise:
  "(\<exists>shapes. detect_poses w img mn dev ct kt ap sg ds = Inr shapes)
   \<and> (\<exists>shapes. estimate_poses w img mn ct dev bs ids ud kt ap sg ds = Inr shapes)
   \<and> (detect_poses_body w img mn dev ct kt ap sg ds = Inl e
        \<longrightarrow> detect_poses w img mn dev ct kt ap sg ds = Inr [])
   \<and> (estimate_poses_body w img mn ct dev bs ids ud kt ap sg ds = Inl e'
        \<longrightarrow> estimate_poses w img mn ct dev bs ids ud kt ap sg ds = Inr [])"
  by (simp add: detect_poses_def estimate_poses_def try_except_def split: sum.splits)

text \<open>Without \<^verbatim>\<open>torch\<close> the constructor raises \<^verbatim>\<open>ImportError\<close>; both entry points return the empty list.\<close>

theorem entry_points_never_raise_witness:
  "detect_poses_body no_torch_world example_image None None None None None 0 (Some True)
     = Inl ImportError
   \<and> detect_poses no_torch_world example_image None None None None None 0 (Some True) = Inr []
   \<and> estimate_poses_body no_torch_world example_image None None None
        (Some [(100, 50, 300, 400)]) (Some [Some 7]) None None None 0 (Some True) = Inl ImportError
   \<and> estimate_poses no_torch_world example_image None None None
        (Some [(100, 50, 300, 400)]) (Some [Some 7]) None None None 0 (Some True) = Inr []"
proof -
  have d: "detect_poses_body no_torch_world example_image None None None None None 0 (Some True)
             = Inl ImportError"
    by (simp add: detect_poses_body_def PoseEstimator_init_def no_torch_world_def)
  have e: "estimate_poses_body no_torch_world example_image None None None
             (Some [(100, 50, 300, 400)]) (Some [Some 7]) None None None 0 (Some True)
             = Inl ImportError"
    by (simp add: estimate_poses_body_def PoseEstimator_init_def no_torch_world_def)
  from d e
    entry_points_never_raise
      [where w = no_torch_world and img = example_image and mn = None and dev = None
         and ct = None and kt = None and ap = None and sg = 0 and ds = "Some True"
         and bs = "Some [(100, 50, 300, 400)]" and ids = "Some [Some 7]" and ud = None
         and e = ImportError and e' = ImportError]
  show ?thesis by simp
qed

section \<open>Visibility and confidence\<close>

text \<open>
  C8 (the code departs from it): a person whose 17 keypoints the KeypointRCNN model reports
  with visibility 2. The full-image path returns them with confidence 1, the half of the
  visibility. The box-guided path of the same model returns the visibility 2 itself as the
  confidence, both for the pose found in the crop of the box and for the pose matched on
  the whole image by IoU. With occluded keypoints (visibility 1) and a keypoint threshold
  of 0.75, above the confidence 0.5 that halving would give, the box-guided entry point
  still returns the 17 points.
\<close>

theorem box_guided_visibility_is_not_halved:
  "map_sum id (\<lambda>r. map (map kp_conf) (fst r))
     (detect_keypointrcnn one_person_world default_estimator) = Inr [replicate 17 1]
   \<and> map (map kp_conf)
        (fst (detect_keypointrcnn_from_boxes one_person_world default_estimator example_image
                [(100, 50, 300, 400)])) = [replicate 17 2]
   \<and> map (map kp_conf)
        (fst (detect_keypointrcnn_from_boxes (fallback_world (100, 50, 170, 400))
                default_estimator example_image [(100, 50, 300, 400)])) = [replicate 17 2]
   \<and> map_sum id length
        (estimate_poses occluded_world example_image None None None
           (Some [(100, 50, 300, 400)]) (Some [Some 7]) None (Some (3 / 4)) None 0 (Some False))
       = Inr 17"
  by code_simp

section \<open>Configuration values\<close>





section \<open>Group identifiers of box-guided poses\<close>

text \<open>
  C1 (the code departs from it): two boxes with the identifiers 7 and 3, and a model that
  finds a person in each crop. The 17 points of the first pose carry the group id 7, those
  of the second carry 8, the successor of the first box's identifier: the identifier 3 of
  the second box is not used.
\<close>

theorem second_box_identifier_is_not_used:
  "map_sum id (map group_id)
     (estimate_poses one_person_world example_image None None None
        (Some [(100, 50, 300, 400), (350, 50, 600, 400)]) (Some [Some 7, Some 3])
        None None None 0 (Some False))
   = Inr (replicate 17 7 @ replicate 17 8)"
  by code_simp

section \<open>The minimum number of visible keypoints\<close>

text \<open>
  C3 (the code departs from it): a person with instance score 0.9 of whom three keypoints
  reach the keypoint threshold 0.2, under \<^verbatim>\<open>min_keypoints\<close> 5. The box-guided path returns
  the pose, as its three points; the full-image path drops the same detection.
\<close>

theorem box_guided_pose_below_min_keypoints_is_returned:
  "estimate_poses half_hidden_world example_image None None None
     (Some [(100, 50, 300, 400)]) (Some [Some 7]) None None (Some [(''min_keypoints'', 5)]) 0
     (Some False)
   = Inr [point_shape ''nose'' 300 110 7, point_shape ''left_eye'' 305 105 7,
          point_shape ''right_eye'' 295 105 7]
   \<and> visible_keypoints (1 / 5)
        (zero_low (1 / 5) (shift_keypoints 100 50 half_hidden_keypoints)) = 3
   \<and> detect_poses half_hidden_world example_image None None None None
        (Some [(''min_keypoints'', 5)]) 0 (Some False) = Inr []"
  by code_simp

section \<open>Projection of keypoints and limbs\<close>

lemma keypoint_shapes_eq:
  "keypoint_shapes gid j ks = Inr ss \<Longrightarrow>
   ss = map (\<lambda>(j, k). point_shape (COCO_KEYPOINTS ! j) (fst k) (fst (snd k)) gid)
          (filter (\<lambda>(j, k). kp_conf k > 0) (enumerate j ks))"
  by (induction gid j ks arbitrary: ss rule: keypoint_shapes.induct)
     (auto simp: kp_conf_def split: if_splits sum.splits)

lemma keypoint_shapes_total:
  "j + length ks \<le> length COCO_KEYPOINTS \<Longrightarrow> \<exists>ss. keypoint_shapes gid j ks = Inr ss"
  by (induction gid j ks rule: keypoint_shapes.induct) (auto split: sum.splits)

lemma limb_shapes_eq:
  "limb_shapes gid kpts es = Inr ss \<Longrightarrow>
   ss = map (\<lambda>(a, b). line_shape (limb_label (COCO_KEYPOINTS ! a) (COCO_KEYPOINTS ! b))
                        (kpts ! a) (kpts ! b) gid)
          (filter (\<lambda>(a, b). kp_conf (kpts ! a) > 0 \<and> kp_conf (kpts ! b) > 0) es)"
  by (induction gid kpts es arbitrary: ss rule: limb_shapes.induct)
     (auto split: if_splits sum.splits)

lemma limb_shapes_total:
  "\<forall>(a, b) \<in> set es. a < length kpts \<and> b < length kpts
       \<and> a < length COCO_KEYPOINTS \<and> b < length COCO_KEYPOINTS \<Longrightarrow>
   \<exists>ss. limb_shapes gid kpts es = Inr ss"
  by (induction gid kpts es rule: limb_shapes.induct) (auto split: sum.splits)

lemma length_COCO_KEYPOINTS: "length COCO_KEYPOINTS = 17"
  by (simp add: COCO_KEYPOINTS_def)

lemma skeleton_in_range:
  "\<forall>(a, b) \<in> set COCO_SKELETON. a < 17 \<and> b < 17"
  by (simp add: COCO_SKELETON_def)

lemma distinct_COCO_KEYPOINTS: "distinct COCO_KEYPOINTS"
  by (simp add: COCO_KEYPOINTS_def)

lemma distinct_limb_labels:
  "distinct (map (\<lambda>(a, b). limb_label (COCO_KEYPOINTS ! a) (COCO_KEYPOINTS ! b)) COCO_SKELETON)"
  by code_simp

lemma pose_shapes_total:
  assumes "length kpts = 17"
  shows "\<exists>ss. pose_shapes gid ds kpts = Inr ss"
proof -
  from assms obtain ps where ps: "keypoint_shapes gid 0 kpts = Inr ps"
    using keypoint_shapes_total [of 0 kpts gid] by (auto simp: length_COCO_KEYPOINTS)
  have "\<forall>(a, b) \<in> set COCO_SKELETON. a < length kpts \<and> b < length kpts
       \<and> a < length COCO_KEYPOINTS \<and> b < length COCO_KEYPOINTS"
    using skeleton_in_range assms by (auto simp: length_COCO_KEYPOINTS)
  then obtain ls where ls: "limb_shapes gid kpts COCO_SKELETON = Inr ls"
    using limb_shapes_total by blast
  from ps ls show ?thesis by (simp add: pose_shapes_def)
qed

lemma poses_shapes_total:
  "\<forall>kpts \<in> set ps. length kpts = 17 \<Longrightarrow> \<exists>ss. poses_shapes start ds i ps = Inr ss"
proof (induction ps arbitrary: i)
  case Nil
  then show ?case by simp
next
  case (Cons kpts rest)
  from Cons.prems pose_shapes_total [of kpts "start + int i" ds]
  obtain a where a: "pose_shapes (start + int i) ds kpts = Inr a" by auto
  from Cons.IH [of "Suc i"] Cons.prems
  obtain b where b: "poses_shapes start ds (Suc i) rest = Inr b" by auto
  from a b show ?case by simp
qed

lemma poses_shapes_mem:
  "poses_shapes start ds i0 ps = Inr ss \<Longrightarrow>
   s \<in> set ss \<longleftrightarrow>
     (\<exists>k < length ps. \<exists>ss'. pose_shapes (start + int (i0 + k)) ds (ps ! k) = Inr ss' \<and> s \<in> set ss')"
proof (induction ps arbitrary: i0 ss)
  case Nil
  then show ?case by simp
next
  case (Cons kpts rest)
  from Cons.prems obtain a b where
    a: "pose_shapes (start + int i0) ds kpts = Inr a" and
    b: "poses_shapes start ds (Suc i0) rest = Inr b" and ss: "ss = a @ b"
    by (auto split: sum.splits)
  have "s \<in> set b \<longleftrightarrow>
     (\<exists>k < length rest. \<exists>ss'. pose_shapes (start + int (Suc i0 + k)) ds (rest ! k) = Inr ss' \<and> s \<in> set ss')"
    by (rule Cons.IH [OF b])
  also have "\<dots> \<longleftrightarrow> (\<exists>k. 0 < k \<and> k < length (kpts # rest) \<and>
       (\<exists>ss'. pose_shapes (start + int (i0 + k)) ds ((kpts # rest) ! k) = Inr ss' \<and> s \<in> set ss'))"
    (is "?L \<longleftrightarrow> ?R")
  proof
    assume ?L
    then obtain k ss' where "k < length rest"
      "pose_shapes (start + int (Suc i0 + k)) ds (rest ! k) = Inr ss'" "s \<in> set ss'" by blast
    then show ?R by (intro exI [of _ "Suc k"]) auto
  next
    assume ?R
    then obtain k ss' where k: "0 < k" "k < length (kpts # rest)"
      "pose_shapes (start + int (i0 + k)) ds ((kpts # rest) ! k) = Inr ss'" "s \<in> set ss'" by blast
    then obtain k' where "k = Suc k'" by (cases k) auto
    with k show ?L by (intro exI [of _ k']) auto
  qed
  finally have tl: "s \<in> set b \<longleftrightarrow> (\<exists>k. 0 < k \<and> k < length (kpts # rest) \<and>
       (\<exists>ss'. pose_shapes (start + int (i0 + k)) ds ((kpts # rest) ! k) = Inr ss' \<and> s \<in> set ss'))" .
  have hd: "s \<in> set a \<longleftrightarrow> (\<exists>k. k = 0 \<and> k < length (kpts # rest) \<and>
       (\<exists>ss'. pose_shapes (start + int (i0 + k)) ds ((kpts # rest) ! k) = Inr ss' \<and> s \<in> set ss'))"
    using a by auto
  have "s \<in> set ss \<longleftrightarrow> s \<in> set a \<or> s \<in> set b" using ss by simp
  also have "\<dots> \<longleftrightarrow> (\<exists>k < length (kpts # rest). \<exists>ss'.
      pose_shapes (start + int (i0 + k)) ds ((kpts # rest) ! k) = Inr ss' \<and> s \<in> set ss')"
    unfolding hd tl by (metis neq0_conv)
  finally show ?case .
qed


lemma pose_shapes_cases:
  assumes "pose_shapes gid ds kpts = Inr ss" and "s \<in> set ss"
  shows "(\<exists>j < length kpts. kp_conf (kpts ! j) > 0 \<and>
            s = point_shape (COCO_KEYPOINTS ! j) (fst (kpts ! j)) (fst (snd (kpts ! j))) gid)
       \<or> (truthy ds \<and> (\<exists>(a, b) \<in> set COCO_SKELETON.
            kp_conf (kpts ! a) > 0 \<and> kp_conf (kpts ! b) > 0 \<and>
            s = line_shape (limb_label (COCO_KEYPOINTS ! a) (COCO_KEYPOINTS ! b))
                  (kpts ! a) (kpts ! b) gid))"
proof -
  from assms(1) obtain ps where ps: "keypoint_shapes gid 0 kpts = Inr ps"
    by (auto simp: pose_shapes_def split: sum.splits)
  note pe = keypoint_shapes_eq [OF ps]
  show ?thesis
  proof (cases "s \<in> set ps")
    case True
    with pe obtain j k where "(j, k) \<in> set (enumerate 0 kpts)" "kp_conf k > 0"
      "s = point_shape (COCO_KEYPOINTS ! j) (fst k) (fst (snd k)) gid"
      by auto
    then show ?thesis by (auto simp: in_set_enumerate_eq)
  next
    case False
    with assms ps obtain ls where t: "truthy ds"
      and ls: "limb_shapes gid kpts COCO_SKELETON = Inr ls" and "s \<in> set ls"
      by (auto simp: pose_shapes_def split: sum.splits if_splits)
    with limb_shapes_eq [OF ls] t show ?thesis by auto
  qed
qed

lemma pose_shapes_point_mem:
  assumes "pose_shapes gid ds kpts = Inr ss" and "j < length kpts" and "kp_conf (kpts ! j) > 0"
  shows "point_shape (COCO_KEYPOINTS ! j) (fst (kpts ! j)) (fst (snd (kpts ! j))) gid \<in> set ss"
proof -
  from assms(1) obtain ps where ps: "keypoint_shapes gid 0 kpts = Inr ps" and sub: "set ps \<subseteq> set ss"
    by (auto simp: pose_shapes_def split: sum.splits if_splits)
  have "(j, kpts ! j) \<in> set (filter (\<lambda>(j, k). kp_conf k > 0) (enumerate 0 kpts))"
    using assms(2,3) by (simp add: in_set_enumerate_eq)
  then have "(\<lambda>(j, k). point_shape (COCO_KEYPOINTS ! j) (fst k) (fst (snd k)) gid) (j, kpts ! j)
       \<in> set ps"
    unfolding keypoint_shapes_eq [OF ps] set_map by (rule imageI)
  with sub show ?thesis by auto
qed

lemma limb_label_inj:
  assumes "(a, b) \<in> set COCO_SKELETON" and "(a', b') \<in> set COCO_SKELETON"
    and "limb_label (COCO_KEYPOINTS ! a) (COCO_KEYPOINTS ! b)
         = limb_label (COCO_KEYPOINTS ! a') (COCO_KEYPOINTS ! b')"
  shows "a = a' \<and> b = b'"
proof -
  let ?f = "\<lambda>(a, b). limb_label (COCO_KEYPOINTS ! a) (COCO_KEYPOINTS ! b)"
  have "inj_on ?f (set COCO_SKELETON)"
    using distinct_limb_labels by (simp add: distinct_map)
  from inj_onD [OF this, of "(a, b)" "(a', b')"] assms show ?thesis by simp
qed

text \<open>
  C4: the projection of poses of 17 keypoints raises nothing, and for the keypoint \<open>j\<close> of
  the pose \<open>i\<close>: a confidence above 0 (however small) gives its point shape; a confidence
  of 0 (or below) gives no point shape for that joint in that group, and no line shape
  for any skeleton edge that has the joint as an endpoint.
\<close>

theorem zero_confidence_is_omitted:
  assumes len: "\<forall>kpts \<in> set keypoints. length kpts = 17"
  shows "\<exists>shapes. get_shapes_from_poses keypoints scores start ds = Inr shapes \<and>
     (\<forall>i j. i < length keypoints \<and> j < 17 \<longrightarrow>
        (0 < kp_conf (keypoints ! i ! j) \<longrightarrow>
           point_shape (COCO_KEYPOINTS ! j) (fst (keypoints ! i ! j))
             (fst (snd (keypoints ! i ! j))) (start + int i) \<in> set shapes)
      \<and> (kp_conf (keypoints ! i ! j) \<le> 0 \<longrightarrow>
           (\<forall>s \<in> set shapes. \<not> (shape_type s = Point \<and> group_id s = start + int i
                                  \<and> label s = COCO_KEYPOINTS ! j))
         \<and> (\<forall>(a, b) \<in> set COCO_SKELETON. a = j \<or> b = j \<longrightarrow>
              (\<forall>s \<in> set shapes. \<not> (shape_type s = Line \<and> group_id s = start + int i
                 \<and> label s = limb_label (COCO_KEYPOINTS ! a) (COCO_KEYPOINTS ! b))))))"
proof -
  from poses_shapes_total [OF len] obtain shapes where
    sh: "poses_shapes start ds 0 keypoints = Inr shapes" by blast
  note mem = poses_shapes_mem [OF sh, simplified]
  have gid: "group_id s = start + int k"
    if "pose_shapes (start + int k) ds kpts = Inr ss" "s \<in> set ss" for s k kpts ss
    using pose_shapes_cases [OF that] by (auto simp: point_shape_def line_shape_def)
  have own: "\<exists>ss. pose_shapes (start + int i) ds (keypoints ! i) = Inr ss \<and> s \<in> set ss"
    if "s \<in> set shapes" "group_id s = start + int i" for s i
  proof -
    from that(1) mem obtain k ss where k: "k < length keypoints"
      "pose_shapes (start + int k) ds (keypoints ! k) = Inr ss" "s \<in> set ss" by blast
    from gid [OF k(2,3)] that(2) have "k = i" by simp
    with k show ?thesis by blast
  qed
  have "(0 < kp_conf (keypoints ! i ! j) \<longrightarrow>
           point_shape (COCO_KEYPOINTS ! j) (fst (keypoints ! i ! j))
             (fst (snd (keypoints ! i ! j))) (start + int i) \<in> set shapes)
      \<and> (kp_conf (keypoints ! i ! j) \<le> 0 \<longrightarrow>
           (\<forall>s \<in> set shapes. \<not> (shape_type s = Point \<and> group_id s = start + int i
                                  \<and> label s = COCO_KEYPOINTS ! j))
         \<and> (\<forall>(a, b) \<in> set COCO_SKELETON. a = j \<or> b = j \<longrightarrow>
              (\<forall>s \<in> set shapes. \<not> (shape_type s = Line \<and> group_id s = start + int i
                 \<and> label s = limb_label (COCO_KEYPOINTS ! a) (COCO_KEYPOINTS ! b)))))"
    if i: "i < length keypoints" and j: "j < 17" for i j
  proof -
    let ?kpts = "keypoints ! i"
    from len i have l17: "length ?kpts = 17" by simp
    from pose_shapes_total [OF l17] obtain ssi where
      ssi: "pose_shapes (start + int i) ds ?kpts = Inr ssi" by blast
    have p1: "point_shape (COCO_KEYPOINTS ! j) (fst (?kpts ! j)) (fst (snd (?kpts ! j)))
                (start + int i) \<in> set shapes" if "0 < kp_conf (?kpts ! j)"
    proof -
      from pose_shapes_point_mem [OF ssi _ that] j l17
      have "point_shape (COCO_KEYPOINTS ! j) (fst (?kpts ! j)) (fst (snd (?kpts ! j)))
                (start + int i) \<in> set ssi" by simp
      with ssi i mem show ?thesis by blast
    qed
    have p2: False
      if c: "kp_conf (?kpts ! j) \<le> 0" and s: "s \<in> set shapes" "shape_type s = Point"
        "group_id s = start + int i" "label s = COCO_KEYPOINTS ! j" for s
    proof -
      from own [OF s(1,3)] ssi have "s \<in> set ssi" by simp
      from pose_shapes_cases [OF ssi this] s(2)
      obtain j' where j': "j' < length ?kpts" "kp_conf (?kpts ! j') > 0"
        "s = point_shape (COCO_KEYPOINTS ! j') (fst (?kpts ! j')) (fst (snd (?kpts ! j')))
               (start + int i)"
        by (auto simp: line_shape_def)
      from j'(3) s(4) have "COCO_KEYPOINTS ! j' = COCO_KEYPOINTS ! j"
        by (simp add: point_shape_def)
      with j'(1) l17 j distinct_COCO_KEYPOINTS have "j' = j"
        by (simp add: nth_eq_iff_index_eq length_COCO_KEYPOINTS)
      with j'(2) c show False by simp
    qed
    have p3: False
      if c: "kp_conf (?kpts ! j) \<le> 0" and ab: "(a, b) \<in> set COCO_SKELETON" "a = j \<or> b = j"
        and s: "s \<in> set shapes" "shape_type s = Line" "group_id s = start + int i"
        "label s = limb_label (COCO_KEYPOINTS ! a) (COCO_KEYPOINTS ! b)" for s a b
    proof -
      from own [OF s(1,3)] ssi have "s \<in> set ssi" by simp
      from pose_shapes_cases [OF ssi this] s(2)
      obtain a' b' where ab': "(a', b') \<in> set COCO_SKELETON"
        "kp_conf (?kpts ! a') > 0" "kp_conf (?kpts ! b') > 0"
        "s = line_shape (limb_label (COCO_KEYPOINTS ! a') (COCO_KEYPOINTS ! b'))
               (?kpts ! a') (?kpts ! b') (start + int i)"
        by (auto simp: point_shape_def)
      from ab'(4) s(4) have "limb_label (COCO_KEYPOINTS ! a) (COCO_KEYPOINTS ! b)
         = limb_label (COCO_KEYPOINTS ! a') (COCO_KEYPOINTS ! b')"
        by (simp add: line_shape_def)
      from limb_label_inj [OF ab(1) ab'(1) this] have "a = a'" "b = b'" by simp_all
      with ab'(2,3) ab(2) c show False by auto
    qed
    from p1 p2 p3 show ?thesis by blast
  qed
  with sh show ?thesis unfolding get_shapes_from_poses_def by blast
qed

text \<open>
  On \<open>faint_pose\<close> with the skeleton drawn: the left eye (confidence 0.01) has its point,
  the nose (confidence 0) has none, and the edge from the nose to the left eye has no line.
\<close>

theorem zero_confidence_is_omitted_witness:
  "length faint_pose = 17 \<and> kp_conf (faint_pose ! 0) = 0 \<and> kp_conf (faint_pose ! 1) = 1 / 100
   \<and> point_shape ''left_eye'' 205 55 4
        \<in> set (projr (get_shapes_from_poses [faint_pose] [] 4 (Some True)))
   \<and> \<not> (\<exists>s \<in> set (projr (get_shapes_from_poses [faint_pose] [] 4 (Some True))).
           shape_type s = Point \<and> group_id s = 4 \<and> label s = ''nose'')
   \<and> \<not> (\<exists>s \<in> set (projr (get_shapes_from_poses [faint_pose] [] 4 (Some True))).
           shape_type s = Line \<and> group_id s = 4 \<and> label s = ''limb_nose_left_eye'')"
proof -
  have len: "\<forall>kpts \<in> set [faint_pose]. length kpts = 17"
    by (simp add: faint_pose_def)
  from zero_confidence_is_omitted [OF len, of "[]" 4 "Some True"] obtain shapes where
    g: "get_shapes_from_poses [faint_pose] [] 4 (Some True) = Inr shapes" and
    a: "\<forall>i j. i < length [faint_pose] \<and> j < 17 \<longrightarrow>
        (0 < kp_conf ([faint_pose] ! i ! j) \<longrightarrow>
           point_shape (COCO_KEYPOINTS ! j) (fst ([faint_pose] ! i ! j))
             (fst (snd ([faint_pose] ! i ! j))) (4 + int i) \<in> set shapes)
      \<and> (kp_conf ([faint_pose] ! i ! j) \<le> 0 \<longrightarrow>
           (\<forall>s \<in> set shapes. \<not> (shape_type s = Point \<and> group_id s = 4 + int i
                                  \<and> label s = COCO_KEYPOINTS ! j))
         \<and> (\<forall>(a, b) \<in> set COCO_SKELETON. a = j \<or> b = j \<longrightarrow>
              (\<forall>s \<in> set shapes. \<not> (shape_type s = Line \<and> group_id s = 4 + int i
                 \<and> label s = limb_label (COCO_KEYPOINTS ! a) (COCO_KEYPOINTS ! b)))))"
    by blast
  have nose: "kp_conf (faint_pose ! 0) = 0" and eye: "kp_conf (faint_pose ! 1) = 1 / 100"
    and eye_xy: "fst (faint_pose ! 1) = 205" "fst (snd (faint_pose ! 1)) = 55"
    by (simp_all add: faint_pose_def kp_conf_def)
  have names: "COCO_KEYPOINTS ! 0 = ''nose''" "COCO_KEYPOINTS ! 1 = ''left_eye''"
    by (simp_all add: COCO_KEYPOINTS_def)
  have edge: "(0, 1) \<in> set COCO_SKELETON"
    by (simp add: COCO_SKELETON_def)
  have lbl: "limb_label ''nose'' ''left_eye'' = ''limb_nose_left_eye''"
    by (simp add: limb_label_def)
  from a [rule_format, of 0 1] eye eye_xy names
  have r1: "point_shape ''left_eye'' 205 55 4 \<in> set shapes" by simp
  from a [rule_format, of 0 0] nose names
  have r2: "\<forall>s \<in> set shapes. \<not> (shape_type s = Point \<and> group_id s = 4 \<and> label s = ''nose'')"
    and r3: "\<forall>(a, b) \<in> set COCO_SKELETON. a = 0 \<or> b = 0 \<longrightarrow>
              (\<forall>s \<in> set shapes. \<not> (shape_type s = Line \<and> group_id s = 4
                 \<and> label s = limb_label (COCO_KEYPOINTS ! a) (COCO_KEYPOINTS ! b)))"
    by simp_all
  from r3 edge names lbl
  have r4: "\<forall>s \<in> set shapes. \<not> (shape_type s = Line \<and> group_id s = 4
                 \<and> label s = ''limb_nose_left_eye'')"
    by fastforce
  from g r1 r2 r4 nose eye len show ?thesis by simp
qed

section \<open>The IoU fallback\<close>








section \<open>Runs of the model on the whole image\<close>

lemma match_full_keypoints:
  "keypoints_list (match_full kthr c fp st)
     = keypoints_list st @ keypoints_list (match_full kthr c fp init_state)"
  by (simp add: match_full_def append_pose_def init_state_def split: list.splits prod.splits)

lemma match_full_runs: "model_runs (match_full kthr c fp st) = model_runs st"
  by (simp add: match_full_def append_pose_def split: list.splits prod.splits)

lemma whole_runs_log:
  "whole_runs (log_run r st) = whole_runs st + (if r = Whole then 1 else 0)"
  by (simp add: whole_runs_def log_run_def)

lemma whole_runs_match_full: "whole_runs (match_full kthr c fp st) = whole_runs st"
  by (simp add: whole_runs_def match_full_runs)

lemma whole_runs_append_pose: "whole_runs (append_pose k s st) = whole_runs st"
  by (simp add: whole_runs_def append_pose_def)

lemma keypoints_log_run: "keypoints_list (log_run r st) = keypoints_list st"
  by (simp add: log_run_def)

lemma keypoints_append_pose: "keypoints_list (append_pose k s st) = keypoints_list st @ [k]"
  by (simp add: append_pose_def)


lemma box_step_nonempty:
  assumes "keypoints_list st \<noteq> []" and "box_step w est img st b = Inr st'"
  shows "keypoints_list st' \<noteq> [] \<and> whole_runs st' = whole_runs st"
  using assms
  by (auto simp: box_step_def Let_def keypoints_log_run keypoints_append_pose
        whole_runs_log whole_runs_append_pose
      split: prod.splits sum.splits list.splits if_splits)

lemma box_step_empty_runs:
  assumes "keypoints_list st = []" and "box_step w est img st b = Inr st'"
  shows "whole_runs st' = whole_runs st + (if crop_empty w img b then 1 else 0)"
  using assms
  by (auto simp: box_step_def crop_empty_def Let_def keypoints_log_run
        whole_runs_log whole_runs_append_pose whole_runs_match_full
      split: prod.splits sum.splits list.splits if_splits)

lemma box_step_empty_collects:
  assumes "keypoints_list st = []" and "box_step w est img st b = Inr st'"
  shows "keypoints_list st' \<noteq> [] \<longleftrightarrow> collects w est img b"
proof -
  have i: "keypoints_list init_state = []" by (simp add: init_state_def)
  from assms obtain st0 where
    s0: "box_step w est img init_state b = Inr st0" and
    eq: "keypoints_list st0 = keypoints_list st'"
    using match_full_keypoints [of _ _ _ "log_run Whole (log_run _ st)"]
      match_full_keypoints [of _ _ _ "log_run Whole (log_run _ init_state)"]
    by (auto simp: box_step_def Let_def keypoints_log_run keypoints_append_pose i
        split: prod.splits sum.splits list.splits if_splits)
  then show ?thesis by (simp add: collects_def)
qed


lemma boxes_loop_nonempty:
  "keypoints_list st \<noteq> [] \<Longrightarrow> boxes_loop w est img st bs = Inr st' \<Longrightarrow>
   whole_runs st' = whole_runs st"
proof (induction bs arbitrary: st)
  case Nil
  then show ?case by simp
next
  case (Cons b bs)
  from Cons.prems(2) obtain st1 where
    s: "box_step w est img st b = Inr st1" and l: "boxes_loop w est img st1 bs = Inr st'"
    by (auto split: sum.splits)
  from box_step_nonempty [OF Cons.prems(1) s] Cons.IH [OF _ l] show ?case by simp
qed

lemma boxes_loop_empty:
  "keypoints_list st = [] \<Longrightarrow> boxes_loop w est img st bs = Inr st' \<Longrightarrow>
   whole_runs st' = whole_runs st
     + length (filter (crop_empty w img)
         (take (Suc (length (takeWhile (\<lambda>b. \<not> collects w est img b) bs))) bs))"
proof (induction bs arbitrary: st)
  case Nil
  then show ?case by simp
next
  case (Cons b bs)
  from Cons.prems(2) obtain st1 where
    s: "box_step w est img st b = Inr st1" and l: "boxes_loop w est img st1 bs = Inr st'"
    by (auto split: sum.splits)
  note r = box_step_empty_runs [OF Cons.prems(1) s]
  note c = box_step_empty_collects [OF Cons.prems(1) s]
  show ?case
  proof (cases "collects w est img b")
    case True
    with c have "keypoints_list st1 \<noteq> []" by simp
    from boxes_loop_nonempty [OF this l] r True show ?thesis by simp
  next
    case False
    with c have "keypoints_list st1 = []" by simp
    from Cons.IH [OF this l] r False show ?thesis by simp
  qed
qed

text \<open>
  C6, as the claim states it, fails on both counts. Two boxes in whose crops the model
  finds nothing, and which the person of the whole image does not overlap: the model is
  run on the whole image twice in the one call. And a box whose crop gives nothing, after
  a box whose crop gave a pose: the model is not run on the whole image at all, although
  the person found there has exactly that box.
\<close>

theorem fallback_once_per_call_counterexample:
  "model_runs (projr (boxes_loop (fallback_world (150, 40, 250, 380)) default_estimator
          example_image init_state [(300, 50, 500, 400), (400, 100, 600, 300)]))
     = [Crop 300 50 500 400, Whole, Crop 400 100 600 300, Whole]
   \<and> model_runs (projr (boxes_loop first_crop_world default_estimator
          example_image init_state [(100, 50, 300, 400), (150, 40, 250, 380)]))
     = [Crop 100 50 300 400, Crop 150 40 250 380]"
  by code_simp

text \<open>
  C6, amended: the fallback on the whole image is run for a box whose crop gives no
  detection only while no pose has been collected, and it runs the model anew each time.
  So the number of runs on the whole image in one call is the number of boxes with an
  empty crop among the boxes up to and including the first that leaves a pose behind.
\<close>

theorem fallback_runs_until_first_pose:
  assumes "boxes_loop w est img init_state boxes = Inr st"
  shows "whole_runs st
     = length (filter (crop_empty w img)
         (take (Suc (length (takeWhile (\<lambda>b. \<not> collects w est img b) boxes))) boxes))"
proof -
  have "keypoints_list init_state = []" and "whole_runs init_state = 0"
    by (simp_all add: init_state_def whole_runs_def)
  with boxes_loop_empty [OF _ assms] show ?thesis by simp
qed

theorem fallback_runs_until_first_pose_witness:
  "whole_runs (projr (boxes_loop (fallback_world (150, 40, 250, 380)) default_estimator
          example_image init_state [(300, 50, 500, 400), (400, 100, 600, 300)])) = 2
   \<and> length (filter (crop_empty (fallback_world (150, 40, 250, 380)) example_image)
         (take (Suc (length (takeWhile
            (\<lambda>b. \<not> collects (fallback_world (150, 40, 250, 380)) default_estimator
                      example_image b)
            [(300, 50, 500, 400), (400, 100, 600, 300)])))
          [(300, 50, 500, 400), (400, 100, 600, 300)])) = 2"
proof -
  have "isl (boxes_loop (fallback_world (150, 40, 250, 380)) default_estimator
          example_image init_state [(300, 50, 500, 400), (400, 100, 600, 300)]) = False"
    by code_simp
  then have l: "boxes_loop (fallback_world (150, 40, 250, 380)) default_estimator
          example_image init_state [(300, 50, 500, 400), (400, 100, 600, 300)]
      = Inr (projr (boxes_loop (fallback_world (150, 40, 250, 380)) default_estimator
          example_image init_state [(300, 50, 500, 400), (400, 100, 600, 300)]))"
    by simp
  have n: "whole_runs (projr (boxes_loop (fallback_world (150, 40, 250, 380)) default_estimator
          example_image init_state [(300, 50, 500, 400), (400, 100, 600, 300)])) = 2"
    by code_simp
  from fallback_runs_until_first_pose [OF l] n show ?thesis by simp
qed

section \<open>Letterbox and its inverse\<close>

lemma py_round_bound: "\<bar>real_of_int (py_round x) - x\<bar> \<le> 1 / 2"
proof -
  have "real_of_int \<lfloor>x\<rfloor> \<le> x" "x < real_of_int \<lfloor>x\<rfloor> + 1" by linarith+
  then show ?thesis by (auto simp: py_round_def Let_def)
qed

lemma py_round_int_tenth: "py_round (real_of_int k - 1 / 10) = k"
proof -
  have "\<lfloor>real_of_int k - 1 / 10\<rfloor> = k - 1" by (rule floor_unique) simp_all
  then show ?thesis by (simp add: py_round_def Let_def)
qed

lemma py_round_half_tenth: "py_round (real_of_int k + 1 / 2 - 1 / 10) = k"
proof -
  have "\<lfloor>real_of_int k + 1 / 2 - 1 / 10\<rfloor> = k" by (rule floor_unique) simp_all
  then show ?thesis by (simp add: py_round_def Let_def)
qed

lemma border_cases:
  "real_of_int (py_round (real_of_int m / 2 - 1 / 10)) = real_of_int m / 2
   \<or> real_of_int (py_round (real_of_int m / 2 - 1 / 10)) = real_of_int m / 2 - 1 / 2"
proof (cases "even m")
  case True
  then obtain k where "m = 2 * k" by (auto elim: evenE)
  then have "real_of_int m / 2 - 1 / 10 = real_of_int k - 1 / 10" by simp
  with py_round_int_tenth [of k] \<open>m = 2 * k\<close> show ?thesis by simp
next
  case False
  then obtain k where "m = 2 * k + 1" by (auto elim: oddE)
  then have "real_of_int m / 2 - 1 / 10 = real_of_int k + 1 / 2 - 1 / 10"
    by (simp add: field_simps)
  with py_round_half_tenth [of k] \<open>m = 2 * k + 1\<close> show ?thesis by simp
qed

lemma axis_bound:
  fixes W r x :: real and S :: int
  assumes W: "0 < W" and r: "0 < r" and x0: "0 \<le> x" and xW: "x \<le> W"
  defines "N \<equiv> py_round (W * r)"
  defines "L \<equiv> py_round (real_of_int (S - N) / 2 - 1 / 10)"
  shows "\<bar>(x * real_of_int N / W + real_of_int L - (real_of_int S - W * r) / 2) / r - x\<bar>
           \<le> 3 / (4 * r)"
proof -
  define e where "e = real_of_int N - W * r"
  define t where "t = x / W"
  define dl where "dl = real_of_int (S - N) / 2 - real_of_int L"
  have e: "\<bar>e\<bar> \<le> 1 / 2" unfolding e_def N_def by (rule py_round_bound)
  have t: "0 \<le> t" "t \<le> 1" using W x0 xW by (simp_all add: t_def)
  have dl: "dl = 0 \<or> dl = 1 / 2"
    using border_cases [of "S - N"] unfolding dl_def L_def by auto
  have "\<bar>e * (t - 1 / 2)\<bar> = \<bar>e\<bar> * \<bar>t - 1 / 2\<bar>" by (rule abs_mult)
  also have "\<dots> \<le> (1 / 2) * (1 / 2)"
  proof (rule mult_mono)
    show "\<bar>e\<bar> \<le> 1 / 2" by (rule e)
    show "\<bar>t - 1 / 2\<bar> \<le> 1 / 2" using t by linarith
  qed simp_all
  finally have p: "\<bar>e * (t - 1 / 2)\<bar> \<le> 1 / 4" by simp
  have a: "x * real_of_int N / W = t * real_of_int N" using W by (simp add: t_def)
  have b: "x * r = t * (W * r)" using W by (simp add: t_def)
  have "t * real_of_int N + real_of_int L - (real_of_int S - W * r) / 2 - t * (W * r)
          = (real_of_int N - W * r) * (t - 1 / 2) - (real_of_int (S - N) / 2 - real_of_int L)"
    by (simp add: algebra_simps diff_divide_distrib)
  then have num: "x * real_of_int N / W + real_of_int L - (real_of_int S - W * r) / 2 - x * r
          = e * (t - 1 / 2) - dl"
    unfolding e_def dl_def a b .
  define A where "A = x * real_of_int N / W + real_of_int L - (real_of_int S - W * r) / 2"
  from num have "A = (e * (t - 1 / 2) - dl) + x * r" unfolding A_def by linarith
  then have "A / r = (e * (t - 1 / 2) - dl) / r + x"
    using r by (simp add: add_divide_distrib)
  then have eq: "(x * real_of_int N / W + real_of_int L - (real_of_int S - W * r) / 2) / r - x
          = (e * (t - 1 / 2) - dl) / r"
    unfolding A_def by simp
  have nb: "\<bar>e * (t - 1 / 2) - dl\<bar> \<le> 3 / 4" using p dl by auto
  have "\<bar>(e * (t - 1 / 2) - dl) / r\<bar> = \<bar>e * (t - 1 / 2) - dl\<bar> / r"
    using r by simp
  also have "\<dots> \<le> (3 / 4) / r"
    using nb r by (intro divide_right_mono) simp_all
  also have "\<dots> = 3 / (4 * r)" by simp
  finally show ?thesis unfolding eq .
qed


lemma letterbox_forward_eq:
  fixes w h imgsz :: int
  assumes "0 < w" and "0 < h"
  defines "r \<equiv> min (real_of_int imgsz / real_of_int w) (real_of_int imgsz / real_of_int h)"
  shows "letterbox_forward (h, w) (imgsz, imgsz) stride (x, y)
     = Inr (x * real_of_int (py_round (real_of_int w * r)) / real_of_int w
              + real_of_int (py_round (real_of_int (imgsz - py_round (real_of_int w * r)) / 2
                                        - 1 / 10)),
            y * real_of_int (py_round (real_of_int h * r)) / real_of_int h
              + real_of_int (py_round (real_of_int (imgsz - py_round (real_of_int h * r)) / 2
                                        - 1 / 10)))"
  using assms(1,2) unfolding r_def
  by (simp add: letterbox_forward_def letterbox_def Let_def min.commute)

lemma unletterbox_eq:
  fixes w h imgsz :: int
  defines "r \<equiv> min (real_of_int imgsz / real_of_int w) (real_of_int imgsz / real_of_int h)"
  shows "unletterbox imgsz (h, w) (a, b)
     = ((a - (real_of_int imgsz - real_of_int w * r) / 2) / r,
        (b - (real_of_int imgsz - real_of_int h * r) / 2) / r)"
    and "unletterbox_crop imgsz (h, w) (x1, y1) (a, b)
     = ((a - (real_of_int imgsz - real_of_int w * r) / 2) / r + real_of_int x1,
        (b - (real_of_int imgsz - real_of_int h * r) / 2) / r + real_of_int y1)"
  unfolding r_def by (simp_all add: unletterbox_def unletterbox_crop_def Let_def)

text \<open>
  C7, as the claim states it, fails: an image 640 wide and 427 high, letterboxed into
  640 by 640 at scale 1. The image gets 106 rows of border on top, the inverse
  subtracts the unrounded padding 106.5, and the corner (0, 0) comes back as (0, -0.5);
  for the crop with origin (100, 50), the corner (100, 50) comes back as (100, 49.5).
  Every number here is exact in floating point as well.
\<close>

theorem unletterbox_exact_counterexample:
  "letterbox_forward (427, 640) (640, 640) 32 (0, 0) = Inr (0, 106)
   \<and> unletterbox 640 (427, 640) (0, 106) = (0, - 1 / 2)
   \<and> letterbox_forward_crop (100, 50) (427, 640) (640, 640) 32 (100, 50) = Inr (0, 106)
   \<and> unletterbox_crop 640 (427, 640) (100, 50) (0, 106) = (100, 99 / 2)
   \<and> unletterbox 640 (427, 640) (0, 106) \<noteq> (0, 0)
   \<and> unletterbox_crop 640 (427, 640) (100, 50) (0, 106) \<noteq> (100, 50)"
  by code_simp

text \<open>
  C7, amended: for an image (or crop) of positive width and height, a positive target
  size and any stride, a point inside the image is recovered by the inverse mapping
  (with the origin of the crop added for a crop) up to three quarters of a pixel of the
  letterboxed image in each coordinate, that is up to 3 / (4 r) with r the scale
  min (target / w, target / h). The inverse uses the unrounded padding, the forward
  transform the rounded size and borders.
\<close>

theorem unletterbox_within_three_quarters:
  assumes w: "0 < w" and h: "0 < h" and s: "0 < imgsz"
    and x: "0 \<le> x" "x \<le> real_of_int w" and y: "0 \<le> y" "y \<le> real_of_int h"
  shows "\<exists>q q'. letterbox_forward (h, w) (imgsz, imgsz) stride (x, y) = Inr q
     \<and> \<bar>fst (unletterbox imgsz (h, w) q) - x\<bar>
          \<le> 3 / (4 * min (real_of_int imgsz / real_of_int w) (real_of_int imgsz / real_of_int h))
     \<and> \<bar>snd (unletterbox imgsz (h, w) q) - y\<bar>
          \<le> 3 / (4 * min (real_of_int imgsz / real_of_int w) (real_of_int imgsz / real_of_int h))
     \<and> letterbox_forward_crop (x1, y1) (h, w) (imgsz, imgsz) stride
          (x + real_of_int x1, y + real_of_int y1) = Inr q'
     \<and> \<bar>fst (unletterbox_crop imgsz (h, w) (x1, y1) q') - (x + real_of_int x1)\<bar>
          \<le> 3 / (4 * min (real_of_int imgsz / real_of_int w) (real_of_int imgsz / real_of_int h))
     \<and> \<bar>snd (unletterbox_crop imgsz (h, w) (x1, y1) q') - (y + real_of_int y1)\<bar>
          \<le> 3 / (4 * min (real_of_int imgsz / real_of_int w) (real_of_int imgsz / real_of_int h))"
proof -
  define r where "r = min (real_of_int imgsz / real_of_int w) (real_of_int imgsz / real_of_int h)"
  have r: "0 < r" using w h s by (simp add: r_def)
  define a where "a = x * real_of_int (py_round (real_of_int w * r)) / real_of_int w
              + real_of_int (py_round (real_of_int (imgsz - py_round (real_of_int w * r)) / 2
                                        - 1 / 10))"
  define b where "b = y * real_of_int (py_round (real_of_int h * r)) / real_of_int h
              + real_of_int (py_round (real_of_int (imgsz - py_round (real_of_int h * r)) / 2
                                        - 1 / 10))"
  have f: "letterbox_forward (h, w) (imgsz, imgsz) stride (x, y) = Inr (a, b)"
    unfolding a_def b_def r_def by (rule letterbox_forward_eq [OF w h])
  then have fc: "letterbox_forward_crop (x1, y1) (h, w) (imgsz, imgsz) stride
          (x + real_of_int x1, y + real_of_int y1) = Inr (a, b)"
    by (simp add: letterbox_forward_crop_def)
  have ba: "\<bar>(a - (real_of_int imgsz - real_of_int w * r) / 2) / r - x\<bar> \<le> 3 / (4 * r)"
    unfolding a_def using axis_bound [of "real_of_int w" r x imgsz] w r x by simp
  have bb: "\<bar>(b - (real_of_int imgsz - real_of_int h * r) / 2) / r - y\<bar> \<le> 3 / (4 * r)"
    unfolding b_def using axis_bound [of "real_of_int h" r y imgsz] h r y by simp
  have u: "unletterbox imgsz (h, w) (a, b)
     = ((a - (real_of_int imgsz - real_of_int w * r) / 2) / r,
        (b - (real_of_int imgsz - real_of_int h * r) / 2) / r)"
    unfolding r_def by (rule unletterbox_eq(1))
  have uc: "unletterbox_crop imgsz (h, w) (x1, y1) (a, b)
     = ((a - (real_of_int imgsz - real_of_int w * r) / 2) / r + real_of_int x1,
        (b - (real_of_int imgsz - real_of_int h * r) / 2) / r + real_of_int y1)"
    unfolding r_def by (rule unletterbox_eq(2))
  have "letterbox_forward (h, w) (imgsz, imgsz) stride (x, y) = Inr (a, b)
     \<and> \<bar>fst (unletterbox imgsz (h, w) (a, b)) - x\<bar> \<le> 3 / (4 * r)
     \<and> \<bar>snd (unletterbox imgsz (h, w) (a, b)) - y\<bar> \<le> 3 / (4 * r)
     \<and> letterbox_forward_crop (x1, y1) (h, w) (imgsz, imgsz) stride
          (x + real_of_int x1, y + real_of_int y1) = Inr (a, b)
     \<and> \<bar>fst (unletterbox_crop imgsz (h, w) (x1, y1) (a, b)) - (x + real_of_int x1)\<bar> \<le> 3 / (4 * r)
     \<and> \<bar>snd (unletterbox_crop imgsz (h, w) (x1, y1) (a, b)) - (y + real_of_int y1)\<bar> \<le> 3 / (4 * r)"
    using f fc ba bb unfolding u uc by simp
  then show ?thesis unfolding r_def by blast
qed

theorem unletterbox_within_three_quarters_witness:
  "letterbox_forward (427, 640) (640, 640) 32 (0, 0) = Inr (0, 106)
   \<and> \<bar>fst (unletterbox 640 (427, 640) (0, 106)) - 0\<bar> \<le> 3 / (4 * min (640 / 640) (640 / 427))
   \<and> \<bar>snd (unletterbox 640 (427, 640) (0, 106)) - 0\<bar> \<le> 3 / (4 * min (640 / 640) (640 / 427))
   \<and> letterbox_forward_crop (100, 50) (427, 640) (640, 640) 32 (100, 50) = Inr (0, 106)
   \<and> \<bar>fst (unletterbox_crop 640 (427, 640) (100, 50) (0, 106)) - 100\<bar>
        \<le> 3 / (4 * min (640 / 640) (640 / 427))
   \<and> \<bar>snd (unletterbox_crop 640 (427, 640) (100, 50) (0, 106)) - 50\<bar>
        \<le> 3 / (4 * min (640 / 640) (640 / 427))"
proof -
  have f: "letterbox_forward (427, 640) (640, 640) 32 (0, 0) = Inr (0, 106)"
    by code_simp
  have fc: "letterbox_forward_crop (100, 50) (427, 640) (640, 640) 32 (100, 50) = Inr (0, 106)"
    by code_simp
  from unletterbox_within_three_quarters
         [of 640 427 640 0 0 32 100 50]
  obtain q q' where
    "letterbox_forward (427, 640) (640, 640) 32 (0, 0) = Inr q"
    "\<bar>fst (unletterbox 640 (427, 640) q) - 0\<bar> \<le> 3 / (4 * min (640 / 640) (640 / 427))"
    "\<bar>snd (unletterbox 640 (427, 640) q) - 0\<bar> \<le> 3 / (4 * min (640 / 640) (640 / 427))"
    "letterbox_forward_crop (100, 50) (427, 640) (640, 640) 32 (100, 50) = Inr q'"
    "\<bar>fst (unletterbox_crop 640 (427, 640) (100, 50) q') - 100\<bar>
        \<le> 3 / (4 * min (640 / 640) (640 / 427))"
    "\<bar>snd (unletterbox_crop 640 (427, 640) (100, 50) q') - 50\<bar>
        \<le> 3 / (4 * min (640 / 640) (640 / 427))"
    by auto
  with f fc show ?thesis by simp
qed

end
